theory Spec2Isabelle
  imports Main "HOL-Library.AList" "HOL-Library.Sublist"
begin

section \<open>JavaScript values\<close>

text \<open>
  The values that travel through the server: tool arguments, GitLab payloads and
  the bodies of HTTP responses. An object is the list of its own properties in
  insertion order. Numbers are the integers (identifiers, counts, line numbers,
  JSON-RPC codes), each standing for the number that its JSON numeral denotes;
  strings are byte sequences.
\<close>

datatype jsval =
    JUndefined
  | JNull
  | JBool bool
  | JNum int
  | JStr string
  | JArr "jsval list"
  | JObj "(string \<times> jsval) list"

text \<open>ToBoolean: what \<^verbatim>\<open>!x\<close>, \<^verbatim>\<open>x || y\<close> and \<^verbatim>\<open>if (x)\<close> test.\<close>

fun truthy :: "jsval \<Rightarrow> bool" where
  "truthy JUndefined = False"
| "truthy JNull = False"
| "truthy (JBool b) = b"
| "truthy (JNum n) = (n \<noteq> 0)"
| "truthy (JStr s) = (s \<noteq> [])"
| "truthy (JArr _) = True"
| "truthy (JObj _) = True"

section \<open>Text of values\<close>

definition digit :: "nat \<Rightarrow> char" where
  "digit n = ''0123456789abcdef'' ! n"

definition DIGIT :: "nat \<Rightarrow> char" where
  "DIGIT n = ''0123456789ABCDEF'' ! n"

fun decimal :: "nat \<Rightarrow> string" where
  "decimal n = (if n < 10 then [digit n] else decimal (n div 10) @ [digit (n mod 10)])"

definition number_text :: "int \<Rightarrow> string" where
  "number_text i = (if i < 0 then CHR ''-'' # decimal (nat (- i)) else decimal (nat i))"

fun commas :: "string list \<Rightarrow> string" where
  "commas [] = []"
| "commas [s] = s"
| "commas (s # t # ts) = s @ CHR '','' # commas (t # ts)"

text \<open>
  \<^verbatim>\<open>encodeURIComponent\<close>: every byte outside the unreserved set becomes
  \<^verbatim>\<open>%XX\<close>.
\<close>

definition uri_unreserved :: "char \<Rightarrow> bool" where
  "uri_unreserved c \<longleftrightarrow>
     c \<in> set (''ABCDEFGHIJKLMNOPQRSTUVWXYZabcdefghijklmnopqrstuvwxyz0123456789-_.!~*()'' @ [CHR 0x27])"

definition encodeURIComponent :: "string \<Rightarrow> string" where
  "encodeURIComponent s =
     concat (map (\<lambda>c. if uri_unreserved c then [c]
                       else [CHR ''%'', DIGIT (of_char c div 16), DIGIT (of_char c mod 16)]) s)"

subsection \<open>JSON text\<close>

text \<open>
  \<^verbatim>\<open>JSON.stringify(x)\<close> without indentation, as \<^verbatim>\<open>res.json\<close> uses it. A
  property whose value is \<^verbatim>\<open>undefined\<close> is left out, an \<^verbatim>\<open>undefined\<close>
  array element is written \<^verbatim>\<open>null\<close>, and \<^verbatim>\<open>undefined\<close> itself has no
  JSON text.
\<close>

definition escape :: "char \<Rightarrow> string" where
  "escape c =
     (if c = CHR 0x22 then [CHR 0x5C, CHR 0x22]
      else if c = CHR 0x5C then [CHR 0x5C, CHR 0x5C]
      else if c = CHR 0x08 then [CHR 0x5C, CHR ''b'']
      else if c = CHR 0x0C then [CHR 0x5C, CHR ''f'']
      else if c = CHR 0x0A then [CHR 0x5C, CHR ''n'']
      else if c = CHR 0x0D then [CHR 0x5C, CHR ''r'']
      else if c = CHR 0x09 then [CHR 0x5C, CHR ''t'']
      else if (of_char c :: nat) < 32
        then [CHR 0x5C, CHR ''u'', CHR ''0'', CHR ''0'',
              digit (of_char c div 16), digit (of_char c mod 16)]
      else [c])"

definition quote :: "string \<Rightarrow> string" where
  "quote s = CHR 0x22 # concat (map escape s) @ [CHR 0x22]"

fun JSON_value :: "jsval \<Rightarrow> string"
and JSON_elements :: "jsval list \<Rightarrow> string list"
and JSON_members :: "(string \<times> jsval) list \<Rightarrow> string list" where
  "JSON_value JUndefined = ''null''"
| "JSON_value JNull = ''null''"
| "JSON_value (JBool b) = (if b then ''true'' else ''false'')"
| "JSON_value (JNum n) = number_text n"
| "JSON_value (JStr s) = quote s"
| "JSON_value (JArr xs) = CHR ''['' # commas (JSON_elements xs) @ '']''"
| "JSON_value (JObj kvs) = CHR ''{'' # commas (JSON_members kvs) @ ''}''"
| "JSON_elements [] = []"
| "JSON_elements (x # xs) = JSON_value x # JSON_elements xs"
| "JSON_members [] = []"
| "JSON_members ((k, v) # kvs) =
     (if v = JUndefined then JSON_members kvs
      else (quote k @ CHR '':'' # JSON_value v) # JSON_members kvs)"

definition JSON_stringify :: "jsval \<Rightarrow> string option" where
  "JSON_stringify v = (if v = JUndefined then None else Some (JSON_value v))"

section \<open>The HTTP transport: \<^verbatim>\<open>startHttp\<close>\<close>

subsection \<open>The session table\<close>

text \<open>
  \<^verbatim>\<open>const transports: Record<string, StreamableHTTPServerTransport> = {}\<close>
  is an ordinary object: its own properties are the live sessions, and a read
  \<^verbatim>\<open>transports[key]\<close> that finds no own property continues in
  \<^verbatim>\<open>Object.prototype\<close>. A transport object is identified by the order of
  its construction.
\<close>

type_synonym transport_ref = nat

type_synonym session_table = "(string \<times> transport_ref) list"

definition Object_prototype_names :: "string list" where
  "Object_prototype_names =
     [''constructor'', ''__defineGetter__'', ''__defineSetter__'', ''hasOwnProperty'',
      ''__lookupGetter__'', ''__lookupSetter__'', ''isPrototypeOf'',
      ''propertyIsEnumerable'', ''toString'', ''valueOf'', ''__proto__'',
      ''toLocaleString'']"

text \<open>
  The value of \<^verbatim>\<open>transports[key]\<close>: a transport stored under the key, a
  member of \<^verbatim>\<open>Object.prototype\<close> (a function or an object, so truthy, and
  without a \<^verbatim>\<open>handleRequest\<close> method), or \<^verbatim>\<open>undefined\<close>.
\<close>

datatype table_entry = Own transport_ref | Inherited | Undefined

definition table_get :: "session_table \<Rightarrow> string \<Rightarrow> table_entry" where
  "table_get tbl key =
     (case map_of tbl key of
        Some t \<Rightarrow> Own t
      | None \<Rightarrow> if key \<in> set Object_prototype_names then Inherited else Undefined)"

text \<open>\<^verbatim>\<open>Object.keys(transports)\<close>\<close>

definition Object_keys :: "session_table \<Rightarrow> string list" where
  "Object_keys tbl = map fst tbl"

record http_state =
  transports :: session_table
  constructed :: nat

definition initial :: http_state where
  "initial = \<lparr>transports = [], constructed = 0\<rparr>"

subsection \<open>Requests and responses\<close>

text \<open>
  What \<^verbatim>\<open>app.use(express.json())\<close> makes of a request before any route sees
  it: the parsed \<^verbatim>\<open>req.body\<close>, or a failure with its status (400 for a body that
  is not JSON, 413 for one that is too large, and so on).
\<close>

datatype parsed = Passed jsval | Failed nat

text \<open>
  The transport library is outside the program. What it does while a route awaits
  \<^verbatim>\<open>transport.handleRequest\<close> is part of the request here: the callbacks of the
  transport that it runs, in order, and whether the awaited call is rejected in the
  end. \<open>Initialize\<close> stands for a completed handshake: the library calls
  \<^verbatim>\<open>sessionIdGenerator\<close>, whose \<^verbatim>\<open>Math.random().toString(36)\<close> gave the text
  carried, and then \<^verbatim>\<open>onsessioninitialized\<close> with the result. \<open>CloseSession\<close>
  stands for a call of \<^verbatim>\<open>onsessionclosed\<close> with the identifier carried, and
  \<open>Close\<close> for a call of \<^verbatim>\<open>transport.onclose\<close>, which finds the value
  carried in \<^verbatim>\<open>transport.sessionId\<close>.
\<close>

datatype callback = Initialize string | CloseSession string | Close "string option"

text \<open>
  \<open>sessionId\<close> is \<^verbatim>\<open>req.headers['mcp-session-id']\<close>: \<^verbatim>\<open>undefined\<close>
  (\<open>None\<close>) or the header's value. \<open>connect_rejects\<close> tells whether
  \<^verbatim>\<open>this.server.connect(transport)\<close> is rejected, when the route calls it.
\<close>

record http_request =
  sessionId :: "string option"
  parsed_body :: parsed
  connect_rejects :: bool
  library :: "callback list"
  handleRequest_rejects :: bool

datatype body = Json jsval | Text string | ErrorPage

text \<open>
  What the client gets: an answer of the program itself, with a status and a body, or
  the answer that the transport writes when \<^verbatim>\<open>handleRequest\<close> is fulfilled.
\<close>

datatype outcome = Respond nat body | Handled transport_ref

definition invalid_session :: jsval where
  "invalid_session =
     JObj [(''jsonrpc'', JStr ''2.0''),
           (''error'', JObj [(''code'', JNum (- 32000)), (''message'', JStr ''Invalid session'')]),
           (''id'', JNull)]"

definition internal_server_error :: jsval where
  "internal_server_error =
     JObj [(''jsonrpc'', JStr ''2.0''),
           (''error'', JObj [(''code'', JNum (- 32603)), (''message'', JStr ''Internal server error'')]),
           (''id'', JNull)]"

definition health_body :: "nat \<Rightarrow> jsval" where
  "health_body n =
     JObj [(''status'', JStr ''ok''),
           (''transport'', JStr ''streamable-http''),
           (''activeSessions'', JNum (int n))]"

subsection \<open>Transport callbacks\<close>

text \<open>
  The closures handed to each new transport. The generator is
  \<^verbatim>\<open>Math.random().toString(36).substring(7)\<close>; its argument here is the base-36
  text of the random number. Its results are radix-36 digits, so the assignment
  \<^verbatim>\<open>transports[id] = transport\<close> always creates or overwrites an own property.
\<close>

definition sessionIdGenerator :: "string \<Rightarrow> string" where
  "sessionIdGenerator random36 = drop 7 random36"

definition onsessioninitialized :: "http_state \<Rightarrow> transport_ref \<Rightarrow> string \<Rightarrow> http_state" where
  "onsessioninitialized st transport ident =
     st\<lparr>transports := AList.update ident transport (transports st)\<rparr>"

definition onsessionclosed :: "http_state \<Rightarrow> string \<Rightarrow> http_state" where
  "onsessionclosed st ident = st\<lparr>transports := AList.delete ident (transports st)\<rparr>"

text \<open>
  Used as a condition, a header value or a session identifier is truthy when it is a
  non-empty string. Used as a property key, \<^verbatim>\<open>undefined\<close> is the string
  \<^verbatim>\<open>"undefined"\<close>.
\<close>

fun header_truthy :: "string option \<Rightarrow> bool" where
  "header_truthy None = False"
| "header_truthy (Some s) = (s \<noteq> [])"

fun property_key :: "string option \<Rightarrow> string" where
  "property_key None = ''undefined''"
| "property_key (Some s) = s"

definition onclose :: "http_state \<Rightarrow> string option \<Rightarrow> http_state" where
  "onclose st transport_sessionId =
     (if header_truthy transport_sessionId
      then st\<lparr>transports := AList.delete (property_key transport_sessionId) (transports st)\<rparr>
      else st)"

text \<open>One callback of the transport \<open>t\<close>, run by the library.\<close>

fun run_callback :: "transport_ref \<Rightarrow> http_state \<Rightarrow> callback \<Rightarrow> http_state" where
  "run_callback t st (Initialize random36) =
     onsessioninitialized st t (sessionIdGenerator random36)"
| "run_callback t st (CloseSession ident) = onsessionclosed st ident"
| "run_callback t st (Close transport_sessionId) = onclose st transport_sessionId"

subsection \<open>Route handlers\<close>

text \<open>
  \<^verbatim>\<open>await transport.handleRequest(req, res, ...)\<close> inside the \<^verbatim>\<open>try\<close> of a
  route: the library runs the callbacks; when the call is rejected, the \<^verbatim>\<open>catch\<close>
  answers 500 with the body of that route.
\<close>

definition handleRequest ::
  "http_state \<Rightarrow> transport_ref \<Rightarrow> http_request \<Rightarrow> body \<Rightarrow> outcome \<times> http_state" where
  "handleRequest st t rq failure =
     (let st' = foldl (run_callback t) st (library rq)
      in if handleRequest_rejects rq then (Respond 500 failure, st') else (Handled t, st'))"

text \<open>
  \<^verbatim>\<open>app.post('/mcp', ...)\<close>. Calling \<^verbatim>\<open>handleRequest\<close> on an inherited
  member raises a TypeError inside the \<^verbatim>\<open>try\<close>, which the \<^verbatim>\<open>catch\<close>
  answers with 500, as it does when \<^verbatim>\<open>connect\<close> is rejected.
\<close>

definition post_mcp :: "http_state \<Rightarrow> http_request \<Rightarrow> outcome \<times> http_state" where
  "post_mcp st rq =
     (if header_truthy (sessionId rq)
         \<and> table_get (transports st) (property_key (sessionId rq)) \<noteq> Undefined then
        (case table_get (transports st) (property_key (sessionId rq)) of
           Own t \<Rightarrow> handleRequest st t rq (Json internal_server_error)
         | _ \<Rightarrow> (Respond 500 (Json internal_server_error), st))
      else if \<not> header_truthy (sessionId rq) then
        (let t = constructed st;
             st' = st\<lparr>constructed := Suc (constructed st)\<rparr>
         in if connect_rejects rq then (Respond 500 (Json internal_server_error), st')
            else handleRequest st' t rq (Json internal_server_error))
      else (Respond 400 (Json invalid_session), st))"

text \<open>\<^verbatim>\<open>app.get('/mcp', ...)\<close> and \<^verbatim>\<open>app.delete('/mcp', ...)\<close> have the same body.\<close>

definition get_mcp :: "http_state \<Rightarrow> http_request \<Rightarrow> outcome \<times> http_state" where
  "get_mcp st rq =
     (case table_get (transports st) (property_key (sessionId rq)) of
        Own t \<Rightarrow> handleRequest st t rq (Text ''Internal server error'')
      | Inherited \<Rightarrow> (Respond 500 (Text ''Internal server error''), st)
      | Undefined \<Rightarrow> (Respond 400 (Json invalid_session), st))"

definition delete_mcp :: "http_state \<Rightarrow> http_request \<Rightarrow> outcome \<times> http_state" where
  "delete_mcp st rq =
     (case table_get (transports st) (property_key (sessionId rq)) of
        Own t \<Rightarrow> handleRequest st t rq (Text ''Internal server error'')
      | Inherited \<Rightarrow> (Respond 500 (Text ''Internal server error''), st)
      | Undefined \<Rightarrow> (Respond 400 (Json invalid_session), st))"

text \<open>\<^verbatim>\<open>app.get('/health', ...)\<close>; \<^verbatim>\<open>res.json\<close> answers with status 200.\<close>

definition health :: "http_state \<Rightarrow> outcome \<times> http_state" where
  "health st = (Respond 200 (Json (health_body (length (Object_keys (transports st))))), st)"

text \<open>
  The application: the JSON body parser comes before the routes. When it fails, the
  error handler of the framework answers with the status of the failure and an error
  page, and no route runs.
\<close>

datatype route = McpPost | McpGet | McpDelete | Health

definition app :: "http_state \<Rightarrow> route \<Rightarrow> http_request \<Rightarrow> outcome \<times> http_state" where
  "app st r rq =
     (case parsed_body rq of
        Failed status \<Rightarrow> (Respond status ErrorPage, st)
      | Passed _ \<Rightarrow>
          (case r of
             McpPost \<Rightarrow> post_mcp st rq
           | McpGet \<Rightarrow> get_mcp st rq
           | McpDelete \<Rightarrow> delete_mcp st rq
           | Health \<Rightarrow> health st))"

subsection \<open>Runs of the server\<close>

text \<open>
  The server moves when a request is processed and when the library runs a callback
  of a transport on its own, as it does with \<^verbatim>\<open>onclose\<close> when the peer goes away.
\<close>

datatype event = Request route http_request | Library transport_ref callback

fun step :: "http_state \<Rightarrow> event \<Rightarrow> http_state" where
  "step st (Request r rq) = snd (app st r rq)"
| "step st (Library t c) = run_callback t st c"

fun run :: "http_state \<Rightarrow> event list \<Rightarrow> http_state" where
  "run st [] = st"
| "run st (e # es) = run (step st e) es"

text \<open>The callback, or the event, is or holds a handshake that generates this identifier.\<close>

fun initializes :: "string \<Rightarrow> callback \<Rightarrow> bool" where
  "initializes ident (Initialize random36) = (sessionIdGenerator random36 = ident)"
| "initializes ident _ = False"

fun registers :: "string \<Rightarrow> event \<Rightarrow> bool" where
  "registers ident (Request r rq) = list_ex (initializes ident) (library rq)"
| "registers ident (Library t c) = initializes ident c"

text \<open>A request with the given session header that causes no callback and no failure.\<close>

definition request_bearing :: "string option \<Rightarrow> http_request" where
  "request_bearing header =
     \<lparr>sessionId = header, parsed_body = Passed (JObj []), connect_rejects = False,
      library = [], handleRequest_rejects = False\<rparr>"

text \<open>
  A session set-up: a POST without session header, whose body the parser accepts,
  while \<^verbatim>\<open>connect\<close> succeeds and the handshake completes.
\<close>

definition initialize_request :: "string \<Rightarrow> http_request" where
  "initialize_request random36 =
     \<lparr>sessionId = None, parsed_body = Passed (JObj []), connect_rejects = False,
      library = [Initialize random36], handleRequest_rejects = False\<rparr>"


text \<open>
  A session tear-down. By DELETE: a request bearing the identifier, during which the
  transport runs \<^verbatim>\<open>onsessionclosed\<close> and then closes itself. By the transport
  alone: only \<^verbatim>\<open>onclose\<close> runs, outside any request.
\<close>

definition delete_request :: "string \<Rightarrow> http_request" where
  "delete_request ident =
     \<lparr>sessionId = Some ident, parsed_body = Passed (JObj []), connect_rejects = False,
      library = [CloseSession ident, Close (Some ident)], handleRequest_rejects = False\<rparr>"



section \<open>Tool handlers and dispatch\<close>

subsection \<open>Failures, GitLab requests and results\<close>

datatype ErrorCode = InvalidRequest | InvalidParams | InternalError

text \<open>
  What a handler can throw: a protocol error, kept as the code and the message given
  to \<^verbatim>\<open>new McpError(code, message)\<close>, the failure of a GitLab request
  (status, when a response arrived, and its body), or a TypeError of the runtime.
\<close>

datatype thrown =
    McpError ErrorCode string
  | AxiosError "nat option" jsval
  | TypeError

fun is_McpError :: "thrown \<Rightarrow> bool" where
  "is_McpError (McpError _ _) = True"
| "is_McpError _ = False"

text \<open>
  \<^verbatim>\<open>String(x)\<close> and the conversion inside a template literal. A number
  below 2 to the 53 in absolute value is written with all its digits; for the others
  the runtime chooses the digits and, from 1e21 on, an exponent: \<open>large\<close> gives
  their text. An array joins its elements with commas, \<^verbatim>\<open>null\<close> and
  \<^verbatim>\<open>undefined\<close> elements as the empty string. An object is
  \<^verbatim>\<open>[object Object]\<close> unless it has an own property \<^verbatim>\<open>toString\<close>: that
  property is not a function, the inherited \<^verbatim>\<open>valueOf\<close> returns the object, and
  the conversion raises a TypeError.
\<close>

type_synonym number_text_large = "int \<Rightarrow> string"

fun ToString :: "number_text_large \<Rightarrow> jsval \<Rightarrow> thrown + string"
and ToString_elements :: "number_text_large \<Rightarrow> jsval list \<Rightarrow> thrown + string list" where
  "ToString large JUndefined = Inr ''undefined''"
| "ToString large JNull = Inr ''null''"
| "ToString large (JBool b) = Inr (if b then ''true'' else ''false'')"
| "ToString large (JNum n) =
     Inr (if \<bar>n\<bar> < 9007199254740992 then number_text n else large n)"
| "ToString large (JStr s) = Inr s"
| "ToString large (JArr xs) =
     (case ToString_elements large xs of
        Inl e \<Rightarrow> Inl e
      | Inr texts \<Rightarrow> Inr (commas texts))"
| "ToString large (JObj kvs) =
     (if ''toString'' \<in> fst ` set kvs then Inl TypeError else Inr ''[object Object]'')"
| "ToString_elements large [] = Inr []"
| "ToString_elements large (x # xs) =
     (if x = JUndefined \<or> x = JNull then
        (case ToString_elements large xs of
           Inl e \<Rightarrow> Inl e
         | Inr texts \<Rightarrow> Inr ([] # texts))
      else
        (case ToString large x of
           Inl e \<Rightarrow> Inl e
         | Inr text_x \<Rightarrow>
             (case ToString_elements large xs of
                Inl e \<Rightarrow> Inl e
              | Inr texts \<Rightarrow> Inr (text_x # texts))))"

text \<open>
  A call on \<^verbatim>\<open>context.axiosInstance\<close>: the path, and the \<^verbatim>\<open>params\<close> of a
  GET (empty when no configuration is passed) or the body of a POST or PUT.
\<close>

datatype request =
    AxiosGet string "(string \<times> jsval) list"
  | AxiosPost string jsval
  | AxiosPut string jsval

text \<open>
  GitLab is outside the program: \<open>axios\<close> answers a request with
  \<^verbatim>\<open>response.data\<close> or with the failure that the awaited call throws.
\<close>

type_synonym axios = "request \<Rightarrow> thrown + jsval"

text \<open>A computation ends in a thrown value or a result, after the GitLab calls listed.\<close>

type_synonym 'a effect = "(thrown + 'a) \<times> request list"

definition throw :: "thrown \<Rightarrow> 'a effect" where
  "throw e = (Inl e, [])"

definition return :: "'a \<Rightarrow> 'a effect" where
  "return x = (Inr x, [])"

definition await :: "axios \<Rightarrow> request \<Rightarrow> (jsval \<Rightarrow> 'a effect) \<Rightarrow> 'a effect" where
  "await axiosInstance rq continue =
     (case axiosInstance rq of
        Inl e \<Rightarrow> (Inl e, [rq])
      | Inr data \<Rightarrow> (case continue data of (r, calls) \<Rightarrow> (r, rq # calls)))"

text \<open>An expression whose evaluation can throw, and what is done with its value.\<close>

definition evaluate :: "thrown + 'a \<Rightarrow> ('a \<Rightarrow> 'b effect) \<Rightarrow> 'b effect" where
  "evaluate r continue = (case r of Inl e \<Rightarrow> throw e | Inr x \<Rightarrow> continue x)"

datatype content_block = TextBlock "string option"

datatype envelope = Envelope "content_block list"

text \<open>
  Modelled from the spec: \<^verbatim>\<open>formatResponse\<close> of utils/response-formatter.ts is
  not among the sources. It wraps the payload in the envelope that contains a single
  text block holding the serialized payload.
\<close>

definition formatResponse :: "jsval \<Rightarrow> envelope" where
  "formatResponse data = Envelope [TextBlock (JSON_stringify data)]"

subsection \<open>Arguments\<close>

text \<open>
  \<^verbatim>\<open>params.arguments\<close> is an object or absent; destructuring
  \<^verbatim>\<open>params.arguments || {}\<close> reads each named property, \<^verbatim>\<open>undefined\<close> when
  the object has none.
\<close>

type_synonym arguments = "(string \<times> jsval) list"

definition arguments_or_empty :: "arguments option \<Rightarrow> arguments" where
  "arguments_or_empty a = (case a of None \<Rightarrow> [] | Some args \<Rightarrow> args)"

definition property :: "(string \<times> jsval) list \<Rightarrow> string \<Rightarrow> jsval" where
  "property object k = (case map_of object k of Some v \<Rightarrow> v | None \<Rightarrow> JUndefined)"

text \<open>
  Reading a named property of a value that is neither \<^verbatim>\<open>null\<close> nor
  \<^verbatim>\<open>undefined\<close>: only an object can have one of the properties read here.
\<close>

fun member :: "jsval \<Rightarrow> string \<Rightarrow> jsval" where
  "member (JObj kvs) k = property kvs k"
| "member _ k = JUndefined"

text \<open>
  The own properties that \<^verbatim>\<open>{...x}\<close> copies from an object. The handler
  that spreads \<^verbatim>\<open>position\<close> does so after it has found truthy members in it,
  so in an object.
\<close>

fun spread :: "jsval \<Rightarrow> (string \<times> jsval) list" where
  "spread (JObj kvs) = kvs"
| "spread _ = []"

type_synonym ToolHandler = "arguments option \<Rightarrow> axios \<Rightarrow> envelope effect"

text \<open>\<^verbatim>\<open>`/projects/${encodeURIComponent(String(project_id))}`\<close>\<close>

definition project_path :: "number_text_large \<Rightarrow> jsval \<Rightarrow> thrown + string" where
  "project_path large project_id =
     (case ToString large project_id of
        Inl e \<Rightarrow> Inl e
      | Inr text_id \<Rightarrow> Inr (''/projects/'' @ encodeURIComponent text_id))"

subsection \<open>Repository handlers\<close>

text \<open>
  Each handler is given here with the runtime's text of large numbers as its first
  argument; the remaining two are \<^verbatim>\<open>params.arguments\<close> and
  \<^verbatim>\<open>context.axiosInstance\<close>.
\<close>

definition listProjects :: "number_text_large \<Rightarrow> ToolHandler" where
  "listProjects large arguments axiosInstance =
     (let args = arguments_or_empty arguments;
          search = property args ''search'';
          owned = property args ''owned'';
          membership = property args ''membership'';
          per_page = property args ''per_page''
      in await axiosInstance
           (AxiosGet ''/projects''
              [(''search'', search),
               (''owned'', if owned = JBool True then JBool True else JUndefined),
               (''membership'', if membership = JBool True then JBool True else JUndefined),
               (''per_page'', if truthy per_page then per_page else JNum 20)])
           (\<lambda>data. return (formatResponse data)))"

definition getProject :: "number_text_large \<Rightarrow> ToolHandler" where
  "getProject large arguments axiosInstance =
     (let args = arguments_or_empty arguments;
          project_id = property args ''project_id''
      in if \<not> truthy project_id
         then throw (McpError InvalidParams ''project_id is required'')
         else evaluate (project_path large project_id) (\<lambda>project.
                await axiosInstance (AxiosGet project [])
                  (\<lambda>data. return (formatResponse data))))"

definition listBranches :: "number_text_large \<Rightarrow> ToolHandler" where
  "listBranches large arguments axiosInstance =
     (let args = arguments_or_empty arguments;
          project_id = property args ''project_id'';
          search = property args ''search''
      in if \<not> truthy project_id
         then throw (McpError InvalidParams ''project_id is required'')
         else evaluate (project_path large project_id) (\<lambda>project.
                await axiosInstance
                  (AxiosGet (project @ ''/repository/branches'') [(''search'', search)])
                  (\<lambda>data. return (formatResponse data))))"

definition listMergeRequests :: "number_text_large \<Rightarrow> ToolHandler" where
  "listMergeRequests large arguments axiosInstance =
     (let args = arguments_or_empty arguments;
          project_id = property args ''project_id'';
          state = property args ''state'';
          scope = property args ''scope''
      in if \<not> truthy project_id
         then throw (McpError InvalidParams ''project_id is required'')
         else evaluate (project_path large project_id) (\<lambda>project.
                await axiosInstance
                  (AxiosGet (project @ ''/merge_requests'')
                     [(''state'', state), (''scope'', scope)])
                  (\<lambda>data. return (formatResponse data))))"

definition getMergeRequest :: "number_text_large \<Rightarrow> ToolHandler" where
  "getMergeRequest large arguments axiosInstance =
     (let args = arguments_or_empty arguments;
          project_id = property args ''project_id'';
          merge_request_iid = property args ''merge_request_iid''
      in if \<not> truthy project_id \<or> \<not> truthy merge_request_iid
         then throw (McpError InvalidParams ''project_id and merge_request_iid are required'')
         else evaluate (project_path large project_id) (\<lambda>project.
              evaluate (ToString large merge_request_iid) (\<lambda>iid.
                await axiosInstance
                  (AxiosGet (project @ ''/merge_requests/'' @ iid) [])
                  (\<lambda>data. return (formatResponse data)))))"

definition getMergeRequestChanges :: "number_text_large \<Rightarrow> ToolHandler" where
  "getMergeRequestChanges large arguments axiosInstance =
     (let args = arguments_or_empty arguments;
          project_id = property args ''project_id'';
          merge_request_iid = property args ''merge_request_iid''
      in if \<not> truthy project_id \<or> \<not> truthy merge_request_iid
         then throw (McpError InvalidParams ''project_id and merge_request_iid are required'')
         else evaluate (project_path large project_id) (\<lambda>project.
              evaluate (ToString large merge_request_iid) (\<lambda>iid.
                await axiosInstance
                  (AxiosGet (project @ ''/merge_requests/'' @ iid @ ''/changes'') [])
                  (\<lambda>data. return (formatResponse data)))))"

definition createMergeRequestNote :: "number_text_large \<Rightarrow> ToolHandler" where
  "createMergeRequestNote large arguments axiosInstance =
     (let args = arguments_or_empty arguments;
          project_id = property args ''project_id'';
          merge_request_iid = property args ''merge_request_iid'';
          body = property args ''body''
      in if \<not> truthy project_id \<or> \<not> truthy merge_request_iid \<or> \<not> truthy body
         then throw (McpError InvalidParams
                       ''project_id, merge_request_iid, and body are required'')
         else evaluate (project_path large project_id) (\<lambda>project.
              evaluate (ToString large merge_request_iid) (\<lambda>iid.
                await axiosInstance
                  (AxiosPost (project @ ''/merge_requests/'' @ iid @ ''/notes'')
                     (JObj [(''body'', body)]))
                  (\<lambda>data. return (formatResponse data)))))"

definition listIssues :: "number_text_large \<Rightarrow> ToolHandler" where
  "listIssues large arguments axiosInstance =
     (let args = arguments_or_empty arguments;
          project_id = property args ''project_id'';
          state = property args ''state'';
          labels = property args ''labels''
      in if \<not> truthy project_id
         then throw (McpError InvalidParams ''project_id is required'')
         else evaluate (project_path large project_id) (\<lambda>project.
                await axiosInstance
                  (AxiosGet (project @ ''/issues'') [(''state'', state), (''labels'', labels)])
                  (\<lambda>data. return (formatResponse data))))"

definition getRepositoryFile :: "number_text_large \<Rightarrow> ToolHandler" where
  "getRepositoryFile large arguments axiosInstance =
     (let args = arguments_or_empty arguments;
          project_id = property args ''project_id'';
          file_path = property args ''file_path'';
          ref = property args ''ref''
      in if \<not> truthy project_id \<or> \<not> truthy file_path
         then throw (McpError InvalidParams ''project_id and file_path are required'')
         else evaluate (project_path large project_id) (\<lambda>project.
              evaluate (ToString large file_path) (\<lambda>file.
                await axiosInstance
                  (AxiosGet (project @ ''/repository/files/'' @ encodeURIComponent file)
                     [(''ref'', if truthy ref then ref else JStr ''main'')])
                  (\<lambda>data. return (formatResponse data)))))"

definition compareBranches :: "number_text_large \<Rightarrow> ToolHandler" where
  "compareBranches large arguments axiosInstance =
     (let args = arguments_or_empty arguments;
          project_id = property args ''project_id'';
          from = property args ''from'';
          to = property args ''to''
      in if \<not> truthy project_id \<or> \<not> truthy from \<or> \<not> truthy to
         then throw (McpError InvalidParams ''project_id, from, and to are required'')
         else evaluate (project_path large project_id) (\<lambda>project.
                await axiosInstance
                  (AxiosGet (project @ ''/repository/compare'') [(''from'', from), (''to'', to)])
                  (\<lambda>data. return (formatResponse data))))"

definition updateMergeRequest :: "number_text_large \<Rightarrow> ToolHandler" where
  "updateMergeRequest large arguments axiosInstance =
     (let args = arguments_or_empty arguments;
          project_id = property args ''project_id'';
          merge_request_iid = property args ''merge_request_iid'';
          title = property args ''title'';
          description = property args ''description''
      in if \<not> truthy project_id \<or> \<not> truthy merge_request_iid
         then throw (McpError InvalidParams ''project_id and merge_request_iid are required'')
         else if \<not> truthy title \<and> \<not> truthy description
         then throw (McpError InvalidParams
                       ''At least one of title or description is required'')
         else evaluate (project_path large project_id) (\<lambda>project.
              evaluate (ToString large merge_request_iid) (\<lambda>iid.
                await axiosInstance
                  (AxiosPut (project @ ''/merge_requests/'' @ iid)
                     (JObj [(''title'', title), (''description'', description)]))
                  (\<lambda>data. return (formatResponse data)))))"

definition createMergeRequestNoteInternal :: "number_text_large \<Rightarrow> ToolHandler" where
  "createMergeRequestNoteInternal large arguments axiosInstance =
     (let args = arguments_or_empty arguments;
          project_id = property args ''project_id'';
          merge_request_iid = property args ''merge_request_iid'';
          body = property args ''body'';
          internal = property args ''internal''
      in if \<not> truthy project_id \<or> \<not> truthy merge_request_iid \<or> \<not> truthy body
         then throw (McpError InvalidParams
                       ''project_id, merge_request_iid, and body are required'')
         else evaluate (project_path large project_id) (\<lambda>project.
              evaluate (ToString large merge_request_iid) (\<lambda>iid.
                await axiosInstance
                  (AxiosPost (project @ ''/merge_requests/'' @ iid @ ''/notes'')
                     (JObj [(''body'', body), (''internal'', JBool (internal = JBool True))]))
                  (\<lambda>data. return (formatResponse data)))))"

definition createMergeRequestDiscussion :: "number_text_large \<Rightarrow> ToolHandler" where
  "createMergeRequestDiscussion large arguments axiosInstance =
     (let args = arguments_or_empty arguments;
          project_id = property args ''project_id'';
          merge_request_iid = property args ''merge_request_iid'';
          body = property args ''body'';
          position = property args ''position''
      in if \<not> truthy project_id \<or> \<not> truthy merge_request_iid \<or> \<not> truthy body
              \<or> \<not> truthy position
         then throw (McpError InvalidParams
                       ''project_id, merge_request_iid, body, and position are required'')
         else
           let base_sha = member position ''base_sha'';
               start_sha = member position ''start_sha'';
               head_sha = member position ''head_sha'';
               new_path = member position ''new_path'';
               old_path = member position ''old_path''
           in if \<not> truthy base_sha \<or> \<not> truthy start_sha \<or> \<not> truthy head_sha
                   \<or> \<not> truthy new_path \<or> \<not> truthy old_path
              then throw (McpError InvalidParams
                     ''position must include base_sha, start_sha, head_sha, new_path, and old_path'')
              else evaluate (project_path large project_id) (\<lambda>project.
                   evaluate (ToString large merge_request_iid) (\<lambda>iid.
                     await axiosInstance
                       (AxiosPost (project @ ''/merge_requests/'' @ iid @ ''/discussions'')
                          (JObj [(''body'', body),
                                 (''position'',
                                  JObj (AList.update ''position_type'' (JStr ''text'')
                                          (spread position)))]))
                       (\<lambda>data. return (formatResponse data)))))"

text \<open>
  \<^verbatim>\<open>mrResponse.data.diff_refs\<close> raises a TypeError when the data are
  \<^verbatim>\<open>null\<close> or \<^verbatim>\<open>undefined\<close>. The path of the second request is built from
  the same two arguments as that of the first.
\<close>

definition createMergeRequestDiscussionSimple :: "number_text_large \<Rightarrow> ToolHandler" where
  "createMergeRequestDiscussionSimple large arguments axiosInstance =
     (let args = arguments_or_empty arguments;
          project_id = property args ''project_id'';
          merge_request_iid = property args ''merge_request_iid'';
          body = property args ''body'';
          file_path = property args ''file_path'';
          line_number = property args ''line_number'';
          line_type = property args ''line_type''
      in if \<not> truthy project_id \<or> \<not> truthy merge_request_iid \<or> \<not> truthy body
              \<or> \<not> truthy file_path \<or> \<not> truthy line_number \<or> \<not> truthy line_type
         then throw (McpError InvalidParams
            ''project_id, merge_request_iid, body, file_path, line_number, and line_type are required'')
         else if line_type \<noteq> JStr ''new'' \<and> line_type \<noteq> JStr ''old''
         then throw (McpError InvalidParams
                (''line_type must be either '' @ [CHR 0x22] @ ''new'' @ [CHR 0x22]
                   @ '' or '' @ [CHR 0x22] @ ''old'' @ [CHR 0x22]))
         else evaluate (project_path large project_id) (\<lambda>project.
              evaluate (ToString large merge_request_iid) (\<lambda>iid.
                await axiosInstance (AxiosGet (project @ ''/merge_requests/'' @ iid) [])
                  (\<lambda>data.
                     if data = JUndefined \<or> data = JNull then throw TypeError
                     else
                       let diffRefs = member data ''diff_refs'' in
                       if \<not> truthy diffRefs
                       then throw (McpError InternalError
  ''Could not retrieve diff_refs from merge request. The MR may not have any commits yet.'')
                       else
                         let position =
                               JObj [(''base_sha'', member diffRefs ''base_sha''),
                                     (''start_sha'', member diffRefs ''start_sha''),
                                     (''head_sha'', member diffRefs ''head_sha''),
                                     (''position_type'', JStr ''text''),
                                     (''new_path'', file_path),
                                     (''old_path'', file_path),
                                     (''new_line'',
                                      if line_type = JStr ''new'' then line_number else JNull),
                                     (''old_line'',
                                      if line_type = JStr ''old'' then line_number else JNull)]
                         in await axiosInstance
                              (AxiosPost (project @ ''/merge_requests/'' @ iid @ ''/discussions'')
                                 (JObj [(''body'', body), (''position'', position)]))
                              (\<lambda>data. return (formatResponse data))))))"

text \<open>
  The handlers above by name, with the arguments that each one's first check tests
  and that its message calls required.
\<close>

datatype tool =
    ListProjects | GetProject | ListBranches | ListMergeRequests | GetMergeRequest
  | GetMergeRequestChanges | CreateMergeRequestNote | ListIssues | GetRepositoryFile
  | CompareBranches | UpdateMergeRequest | CreateMergeRequestNoteInternal
  | CreateMergeRequestDiscussion | CreateMergeRequestDiscussionSimple

fun handler_of :: "number_text_large \<Rightarrow> tool \<Rightarrow> ToolHandler" where
  "handler_of large ListProjects = listProjects large"
| "handler_of large GetProject = getProject large"
| "handler_of large ListBranches = listBranches large"
| "handler_of large ListMergeRequests = listMergeRequests large"
| "handler_of large GetMergeRequest = getMergeRequest large"
| "handler_of large GetMergeRequestChanges = getMergeRequestChanges large"
| "handler_of large CreateMergeRequestNote = createMergeRequestNote large"
| "handler_of large ListIssues = listIssues large"
| "handler_of large GetRepositoryFile = getRepositoryFile large"
| "handler_of large CompareBranches = compareBranches large"
| "handler_of large UpdateMergeRequest = updateMergeRequest large"
| "handler_of large CreateMergeRequestNoteInternal = createMergeRequestNoteInternal large"
| "handler_of large CreateMergeRequestDiscussion = createMergeRequestDiscussion large"
| "handler_of large CreateMergeRequestDiscussionSimple = createMergeRequestDiscussionSimple large"

fun required :: "tool \<Rightarrow> string list" where
  "required ListProjects = []"
| "required GetProject = [''project_id'']"
| "required ListBranches = [''project_id'']"
| "required ListMergeRequests = [''project_id'']"
| "required GetMergeRequest = [''project_id'', ''merge_request_iid'']"
| "required GetMergeRequestChanges = [''project_id'', ''merge_request_iid'']"
| "required CreateMergeRequestNote = [''project_id'', ''merge_request_iid'', ''body'']"
| "required ListIssues = [''project_id'']"
| "required GetRepositoryFile = [''project_id'', ''file_path'']"
| "required CompareBranches = [''project_id'', ''from'', ''to'']"
| "required UpdateMergeRequest = [''project_id'', ''merge_request_iid'']"
| "required CreateMergeRequestNoteInternal = [''project_id'', ''merge_request_iid'', ''body'']"
| "required CreateMergeRequestDiscussion =
     [''project_id'', ''merge_request_iid'', ''body'', ''position'']"
| "required CreateMergeRequestDiscussionSimple =
     [''project_id'', ''merge_request_iid'', ''body'', ''file_path'', ''line_number'',
      ''line_type'']"

fun required_message :: "tool \<Rightarrow> string" where
  "required_message ListProjects = []"
| "required_message GetProject = ''project_id is required''"
| "required_message ListBranches = ''project_id is required''"
| "required_message ListMergeRequests = ''project_id is required''"
| "required_message GetMergeRequest = ''project_id and merge_request_iid are required''"
| "required_message GetMergeRequestChanges = ''project_id and merge_request_iid are required''"
| "required_message CreateMergeRequestNote =
     ''project_id, merge_request_iid, and body are required''"
| "required_message ListIssues = ''project_id is required''"
| "required_message GetRepositoryFile = ''project_id and file_path are required''"
| "required_message CompareBranches = ''project_id, from, and to are required''"
| "required_message UpdateMergeRequest = ''project_id and merge_request_iid are required''"
| "required_message CreateMergeRequestNoteInternal =
     ''project_id, merge_request_iid, and body are required''"
| "required_message CreateMergeRequestDiscussion =
     ''project_id, merge_request_iid, body, and position are required''"
| "required_message CreateMergeRequestDiscussionSimple =
     ''project_id, merge_request_iid, body, file_path, line_number, and line_type are required''"

subsection \<open>Dispatch of \<^verbatim>\<open>tools/call\<close>\<close>

text \<open>
  The handler registered for \<^verbatim>\<open>CallToolRequestSchema\<close>. Two collaborators
  are imported from files that are not among the sources and are parameters here:
  \<open>toolRegistry\<close> gives the value of \<^verbatim>\<open>toolRegistry[toolName]\<close>, \<open>None\<close>
  when that is \<^verbatim>\<open>undefined\<close>, and \<open>handleApiError\<close> gives the value that
  \<^verbatim>\<open>handleApiError(error, contextMessage)\<close> returns, which is thrown.
\<close>

definition call_tool ::
  "(string \<Rightarrow> (arguments option \<Rightarrow> axios \<Rightarrow> 'r effect) option)
     \<Rightarrow> (thrown \<Rightarrow> string \<Rightarrow> thrown) \<Rightarrow> axios
     \<Rightarrow> string \<Rightarrow> arguments option \<Rightarrow> 'r effect" where
  "call_tool toolRegistry handleApiError axiosInstance toolName arguments =
     (let attempt =
            (case toolRegistry toolName of
               None \<Rightarrow> throw (McpError InvalidRequest (''Unknown tool: '' @ toolName))
             | Some handler \<Rightarrow> handler arguments axiosInstance)
      in case attempt of
           (Inl error, calls) \<Rightarrow>
             if is_McpError error then (Inl error, calls)
             else (Inl (handleApiError error ''Error executing GitLab operation''), calls)
         | (Inr result, calls) \<Rightarrow> (Inr result, calls))"

subsection \<open>The registry as an object\<close>

text \<open>
  What \<^verbatim>\<open>tools/call\<close> hands back: the envelope of a registered handler, or
  whatever else the function that was called returned.
\<close>

datatype tool_result = Content envelope | Returned jsval

text \<open>\<^verbatim>\<open>request.params\<close> of a \<^verbatim>\<open>tools/call\<close> request.\<close>

definition request_params :: "string \<Rightarrow> arguments option \<Rightarrow> jsval" where
  "request_params toolName arguments =
     JObj ((''name'', JStr toolName)
           # (case arguments of None \<Rightarrow> [] | Some args \<Rightarrow> [(''arguments'', JObj args)]))"

text \<open>
  A member of \<^verbatim>\<open>Object.prototype\<close> called as
  \<^verbatim>\<open>handler(request.params, this.handlerContext)\<close>, that is without a receiver:
  \<^verbatim>\<open>constructor\<close> is \<^verbatim>\<open>Object\<close> and returns the object it is given,
  \<^verbatim>\<open>toString\<close> returns the tag of \<^verbatim>\<open>undefined\<close>, \<^verbatim>\<open>__proto__\<close> is
  not a function, and the remaining members fail to convert their missing receiver
  to an object.
\<close>

definition inherited_member :: "string \<Rightarrow> jsval \<Rightarrow> tool_result effect" where
  "inherited_member name params =
     (if name = ''constructor'' then return (Returned params)
      else if name = ''toString'' then return (Returned (JStr ''[object Undefined]''))
      else throw TypeError)"

text \<open>
  Modelled from the spec: the registry of utils/tool-registry.ts is not among the
  sources. It is a plain name-keyed function map, that is an ordinary object whose
  own properties are the registered handlers; the bracket lookup of the dispatch
  finds them and, for the other names, the members that every ordinary object
  inherits.
\<close>

definition registry_get ::
  "(string \<times> ToolHandler) list \<Rightarrow> string
     \<Rightarrow> (arguments option \<Rightarrow> axios \<Rightarrow> tool_result effect) option" where
  "registry_get registry toolName =
     (case map_of registry toolName of
        Some handler \<Rightarrow>
          Some (\<lambda>arguments axiosInstance.
                  case handler arguments axiosInstance of
                    (Inl e, calls) \<Rightarrow> (Inl e, calls)
                  | (Inr result, calls) \<Rightarrow> (Inr (Content result), calls))
      | None \<Rightarrow>
          if toolName \<in> set Object_prototype_names
          then Some (\<lambda>arguments axiosInstance.
                       inherited_member toolName (request_params toolName arguments))
          else None)"

section \<open>Reading JSON text\<close>

text \<open>
  \<^verbatim>\<open>JSON.parse\<close> on the values of this model: white space between tokens, the
  literals, integers (a number with a fraction or an exponent has no value here),
  strings with their escapes (a four-digit hexadecimal escape gives the bytes of its
  code point; a surrogate has none here), arrays and objects. The three mutually recursive
  functions descend on a bound that \<open>JSON_parse\<close> sets beyond the length of the
  text.
\<close>

definition is_ws :: "char \<Rightarrow> bool" where
  "is_ws c \<longleftrightarrow> c = CHR '' '' \<or> c = CHR 0x09 \<or> c = CHR 0x0A \<or> c = CHR 0x0D"

definition skip_ws :: "string \<Rightarrow> string" where
  "skip_ws = dropWhile is_ws"

definition is_digit :: "char \<Rightarrow> bool" where
  "is_digit c \<longleftrightarrow> 48 \<le> (of_char c :: nat) \<and> (of_char c :: nat) \<le> 57"

definition digits_value :: "string \<Rightarrow> nat" where
  "digits_value ds = foldl (\<lambda>a c. 10 * a + (of_char c - 48)) 0 ds"

definition hex_value :: "char \<Rightarrow> nat option" where
  "hex_value c =
     (let k = of_char c :: nat in
      if 48 \<le> k \<and> k \<le> 57 then Some (k - 48)
      else if 97 \<le> k \<and> k \<le> 102 then Some (k - 87)
      else if 65 \<le> k \<and> k \<le> 70 then Some (k - 55)
      else None)"

definition utf8 :: "nat \<Rightarrow> string option" where
  "utf8 k =
     (if k < 0x80 then Some [char_of k]
      else if k < 0x800 then Some [char_of (0xC0 + k div 64), char_of (0x80 + k mod 64)]
      else if 0xD800 \<le> k \<and> k \<le> 0xDFFF then None
      else Some [char_of (0xE0 + k div 4096), char_of (0x80 + k div 64 mod 64),
                 char_of (0x80 + k mod 64)])"

definition unescape :: "char \<Rightarrow> char option" where
  "unescape e =
     (if e = CHR 0x22 then Some (CHR 0x22)
      else if e = CHR 0x5C then Some (CHR 0x5C)
      else if e = CHR ''/'' then Some (CHR ''/'')
      else if e = CHR ''b'' then Some (CHR 0x08)
      else if e = CHR ''f'' then Some (CHR 0x0C)
      else if e = CHR ''n'' then Some (CHR 0x0A)
      else if e = CHR ''r'' then Some (CHR 0x0D)
      else if e = CHR ''t'' then Some (CHR 0x09)
      else None)"

definition unicode_escape :: "string \<Rightarrow> string option" where
  "unicode_escape hs =
     (case map hex_value hs of
        [Some a, Some b, Some c, Some d] \<Rightarrow> utf8 (((a * 16 + b) * 16 + c) * 16 + d)
      | _ \<Rightarrow> None)"

definition followed_by :: "string \<Rightarrow> (string \<times> string) option \<Rightarrow> (string \<times> string) option" where
  "followed_by s r = (case r of None \<Rightarrow> None | Some (t, rest) \<Rightarrow> Some (s @ t, rest))"

fun parse_string_body :: "string \<Rightarrow> (string \<times> string) option" where
  "parse_string_body [] = None"
| "parse_string_body (c # cs) =
     (if c = CHR 0x22 then Some ([], cs)
      else if c = CHR 0x5C then
        (case cs of
           [] \<Rightarrow> None
         | e # r \<Rightarrow>
             if e = CHR ''u'' then
               (case unicode_escape (take 4 r) of
                  None \<Rightarrow> None
                | Some s \<Rightarrow> followed_by s (parse_string_body (drop 4 r)))
             else
               (case unescape e of
                  None \<Rightarrow> None
                | Some x \<Rightarrow> followed_by [x] (parse_string_body r)))
      else if (of_char c :: nat) < 32 then None
      else followed_by [c] (parse_string_body cs))"

definition parse_number :: "string \<Rightarrow> (jsval \<times> string) option" where
  "parse_number cs =
     (let negative = (cs \<noteq> [] \<and> hd cs = CHR ''-'');
          unsigned = (if negative then tl cs else cs);
          ds = takeWhile is_digit unsigned;
          rest = dropWhile is_digit unsigned
      in if ds = [] \<or> (length ds > 1 \<and> hd ds = CHR ''0'')
            \<or> (rest \<noteq> [] \<and> hd rest \<in> {CHR ''.'', CHR ''e'', CHR ''E''})
         then None
         else Some (JNum (if negative then - int (digits_value ds) else int (digits_value ds)),
                    rest))"

text \<open>
  The members of an object are assigned one after the other, so a repeated key keeps
  its first place and its last value.
\<close>

definition assign_all :: "(string \<times> jsval) list \<Rightarrow> (string \<times> jsval) list" where
  "assign_all kvs = foldl (\<lambda>object (k, v). AList.update k v object) [] kvs"

fun parse_value :: "nat \<Rightarrow> string \<Rightarrow> (jsval \<times> string) option"
and parse_elements :: "nat \<Rightarrow> string \<Rightarrow> (jsval list \<times> string) option"
and parse_members :: "nat \<Rightarrow> string \<Rightarrow> ((string \<times> jsval) list \<times> string) option" where
  "parse_value 0 cs = None"
| "parse_value (Suc n) cs =
     (case skip_ws cs of
        [] \<Rightarrow> None
      | c # r \<Rightarrow>
          if c = CHR ''['' then
            (if skip_ws r \<noteq> [] \<and> hd (skip_ws r) = CHR '']'' then Some (JArr [], tl (skip_ws r))
             else (case parse_elements n r of
                     None \<Rightarrow> None
                   | Some (vs, rest) \<Rightarrow> Some (JArr vs, rest)))
          else if c = CHR ''{'' then
            (if skip_ws r \<noteq> [] \<and> hd (skip_ws r) = CHR ''}'' then Some (JObj [], tl (skip_ws r))
             else (case parse_members n r of
                     None \<Rightarrow> None
                   | Some (kvs, rest) \<Rightarrow> Some (JObj (assign_all kvs), rest)))
          else if c = CHR 0x22 then
            (case parse_string_body r of
               None \<Rightarrow> None
             | Some (s, rest) \<Rightarrow> Some (JStr s, rest))
          else if take 4 (c # r) = ''null'' then Some (JNull, drop 4 (c # r))
          else if take 4 (c # r) = ''true'' then Some (JBool True, drop 4 (c # r))
          else if take 5 (c # r) = ''false'' then Some (JBool False, drop 5 (c # r))
          else parse_number (c # r))"
| "parse_elements 0 cs = None"
| "parse_elements (Suc n) cs =
     (case parse_value n cs of
        None \<Rightarrow> None
      | Some (v, r) \<Rightarrow>
          (case skip_ws r of
             [] \<Rightarrow> None
           | c # r' \<Rightarrow>
               if c = CHR '','' then
                 (case parse_elements n r' of
                    None \<Rightarrow> None
                  | Some (vs, rest) \<Rightarrow> Some (v # vs, rest))
               else if c = CHR '']'' then Some ([v], r')
               else None))"
| "parse_members 0 cs = None"
| "parse_members (Suc n) cs =
     (case skip_ws cs of
        [] \<Rightarrow> None
      | q # r \<Rightarrow>
          if q \<noteq> CHR 0x22 then None
          else
            (case parse_string_body r of
               None \<Rightarrow> None
             | Some (k, r1) \<Rightarrow>
                 (case skip_ws r1 of
                    [] \<Rightarrow> None
                  | colon # r2 \<Rightarrow>
                      if colon \<noteq> CHR '':'' then None
                      else
                        (case parse_value n r2 of
                           None \<Rightarrow> None
                         | Some (v, r3) \<Rightarrow>
                             (case skip_ws r3 of
                                [] \<Rightarrow> None
                              | c # r4 \<Rightarrow>
                                  if c = CHR '','' then
                                    (case parse_members n r4 of
                                       None \<Rightarrow> None
                                     | Some (kvs, rest) \<Rightarrow> Some ((k, v) # kvs, rest))
                                  else if c = CHR ''}'' then Some ([(k, v)], r4)
                                  else None)))))"

definition JSON_parse :: "string \<Rightarrow> jsval option" where
  "JSON_parse text =
     (case parse_value (Suc (length text)) text of
        None \<Rightarrow> None
      | Some (v, rest) \<Rightarrow> if skip_ws rest = [] then Some v else None)"

text \<open>
  Modelled from the spec: extracting the payload back out of the content envelope,
  which is not part of the sources either: the text of the single text block, read
  as JSON.
\<close>

definition extract_payload :: "envelope \<Rightarrow> jsval option" where
  "extract_payload e =
     (case e of
        Envelope [TextBlock (Some text)] \<Rightarrow> JSON_parse text
      | _ \<Rightarrow> None)"

text \<open>
  The JSON-serializable values: \<^verbatim>\<open>null\<close>, booleans, numbers, strings, arrays
  and objects of such values, the keys of an object pairwise distinct. No
  \<^verbatim>\<open>undefined\<close> occurs in them.
\<close>

fun serializable :: "jsval \<Rightarrow> bool"
and serializable_elements :: "jsval list \<Rightarrow> bool"
and serializable_members :: "(string \<times> jsval) list \<Rightarrow> bool" where
  "serializable JUndefined = False"
| "serializable JNull = True"
| "serializable (JBool b) = True"
| "serializable (JNum n) = True"
| "serializable (JStr s) = True"
| "serializable (JArr xs) = serializable_elements xs"
| "serializable (JObj kvs) = (distinct (map fst kvs) \<and> serializable_members kvs)"
| "serializable_elements [] = True"
| "serializable_elements (x # xs) = (serializable x \<and> serializable_elements xs)"
| "serializable_members [] = True"
| "serializable_members ((k, v) # kvs) = (serializable v \<and> serializable_members kvs)"

text \<open>Two notions for the proofs: what may follow a value, and how a value begins.\<close>

definition delimited :: "string \<Rightarrow> bool" where
  "delimited rest \<longleftrightarrow>
     rest = [] \<or> hd rest = CHR '','' \<or> hd rest = CHR '']'' \<or> hd rest = CHR ''}''"

definition starts_value :: "string \<Rightarrow> bool" where
  "starts_value s \<longleftrightarrow>
     s \<noteq> [] \<and> \<not> is_ws (hd s) \<and> hd s \<noteq> CHR '']'' \<and> hd s \<noteq> CHR ''}''"


section \<open>Properties of the session table\<close>

lemmas http_unfold =
  initial_def app_def post_mcp_def get_mcp_def delete_mcp_def health_def handleRequest_def
  table_get_def Object_prototype_names_def request_bearing_def initialize_request_def
  delete_request_def sessionIdGenerator_def onsessioninitialized_def onsessionclosed_def
  onclose_def Object_keys_def

lemma table_get_Undefined_iff:
  "table_get tbl key = Undefined \<longleftrightarrow> key \<notin> fst ` set tbl \<and> key \<notin> set Object_prototype_names"
proof (cases "map_of tbl key")
  case None
  then have "key \<notin> fst ` set tbl" by (simp add: map_of_eq_None_iff)
  with None show ?thesis by (simp add: table_get_def)
next
  case (Some t)
  then have "key \<in> fst ` set tbl" by (metis map_of_eq_None_iff option.distinct(1))
  with Some show ?thesis by (simp add: table_get_def)
qed

lemma run_callback_keeps_distinct:
  "distinct (Object_keys (transports st))
     \<Longrightarrow> distinct (Object_keys (transports (run_callback t st c)))"
  by (cases c)
     (simp_all add: Object_keys_def onsessioninitialized_def onsessionclosed_def onclose_def
        distinct_update distinct_delete)

lemma callbacks_keep_distinct:
  "distinct (Object_keys (transports st))
     \<Longrightarrow> distinct (Object_keys (transports (foldl (run_callback t) st cs)))"
  by (induction cs arbitrary: st) (simp_all add: run_callback_keeps_distinct)

lemma handleRequest_state:
  "snd (handleRequest st t rq failure) = foldl (run_callback t) st (library rq)"
  by (simp add: handleRequest_def Let_def)

lemma constructed_keeps_table:
  "transports (st\<lparr>constructed := n\<rparr>) = transports st"
  by simp

lemma post_mcp_state:
  "snd (post_mcp st rq) = st
   \<or> snd (post_mcp st rq) = st\<lparr>constructed := Suc (constructed st)\<rparr>
   \<or> (\<exists>t. snd (post_mcp st rq) = foldl (run_callback t) st (library rq))
   \<or> (\<exists>t. snd (post_mcp st rq)
            = foldl (run_callback t) (st\<lparr>constructed := Suc (constructed st)\<rparr>) (library rq))"
  by (auto simp: post_mcp_def handleRequest_state Let_def split: table_entry.splits)

lemma get_mcp_state:
  "snd (get_mcp st rq) = st \<or> (\<exists>t. snd (get_mcp st rq) = foldl (run_callback t) st (library rq))"
  by (auto simp: get_mcp_def handleRequest_state split: table_entry.splits)

lemma delete_mcp_state:
  "snd (delete_mcp st rq) = st
   \<or> (\<exists>t. snd (delete_mcp st rq) = foldl (run_callback t) st (library rq))"
  by (auto simp: delete_mcp_def handleRequest_state split: table_entry.splits)

lemma app_state:
  "snd (app st r rq) = st
   \<or> snd (app st r rq) = st\<lparr>constructed := Suc (constructed st)\<rparr>
   \<or> (\<exists>t. snd (app st r rq) = foldl (run_callback t) st (library rq))
   \<or> (\<exists>t. snd (app st r rq)
            = foldl (run_callback t) (st\<lparr>constructed := Suc (constructed st)\<rparr>) (library rq))"
proof (cases "parsed_body rq")
  case (Failed status)
  then show ?thesis by (simp add: app_def)
next
  case (Passed b)
  show ?thesis
  proof (cases r)
    case McpPost
    with Passed post_mcp_state[of st rq] show ?thesis by (simp add: app_def)
  next
    case McpGet
    with Passed get_mcp_state[of st rq] show ?thesis by (auto simp: app_def)
  next
    case McpDelete
    with Passed delete_mcp_state[of st rq] show ?thesis by (auto simp: app_def)
  next
    case Health
    with Passed show ?thesis by (simp add: app_def health_def)
  qed
qed

lemma step_keeps_distinct:
  assumes "distinct (Object_keys (transports st))"
  shows "distinct (Object_keys (transports (step st e)))"
proof (cases e)
  case (Request r rq)
  have "distinct (Object_keys (transports (st\<lparr>constructed := Suc (constructed st)\<rparr>)))"
    using assms by simp
  with assms app_state[of st r rq] Request show ?thesis
    by (auto simp: callbacks_keep_distinct)
next
  case (Library t c)
  with assms show ?thesis by (simp add: run_callback_keeps_distinct)
qed

lemma run_keeps_distinct:
  "distinct (Object_keys (transports st)) \<Longrightarrow> distinct (Object_keys (transports (run st es)))"
  by (induction es arbitrary: st) (simp_all add: step_keeps_distinct)

lemma reachable_distinct: "distinct (Object_keys (transports (run initial es)))"
  by (rule run_keeps_distinct) (simp add: initial_def Object_keys_def)

subsection \<open>Requests that bear an unknown session identifier\<close>

lemma invalid_session_text:
  \<open>JSON_stringify invalid_session =
     Some ''{"jsonrpc":"2.0","error":{"code":-32000,"message":"Invalid session"},"id":null}''\<close>
  by (simp add: JSON_stringify_def invalid_session_def quote_def escape_def number_text_def
      digit_def)

lemma undefined_entry_rejected:
  assumes "sid \<notin> set (Object_keys (transports st))"
    and "sid \<notin> set Object_prototype_names"
    and "sessionId rq = Some sid"
    and "parsed_body rq = Passed b"
  shows "(sid \<noteq> [] \<longrightarrow> app st McpPost rq = (Respond 400 (Json invalid_session), st))
       \<and> app st McpGet rq = (Respond 400 (Json invalid_session), st)
       \<and> app st McpDelete rq = (Respond 400 (Json invalid_session), st)"
proof -
  from assms(1,2) have "table_get (transports st) sid = Undefined"
    by (simp add: table_get_Undefined_iff Object_keys_def)
  with assms(3,4) show ?thesis
    by (simp add: app_def post_mcp_def get_mcp_def delete_mcp_def)
qed

lemma empty_header_as_none:
  "app st McpPost (rq\<lparr>sessionId := Some []\<rparr>) = app st McpPost (rq\<lparr>sessionId := None\<rparr>)"
  by (simp add: app_def post_mcp_def handleRequest_def Let_def split: parsed.splits)

text \<open>
  C1, as the application implements it. Take a request on /mcp whose body the JSON
  body parser accepts and whose session header is neither an identifier of the live
  table nor the name of a member that the table object inherits. GET and DELETE
  answer it with status 400 and the body
  \<^verbatim>\<open>{"jsonrpc":"2.0","error":{"code":-32000,"message":"Invalid session"},"id":null}\<close>,
  and so does POST when the header value is not empty; the state of the server, the
  session table included, stays as it was. A POST whose header value is empty is
  treated, in every state and whatever else it carries, as the same POST without
  the header.
\<close>

theorem unknown_session_rejected:
  assumes "sid \<notin> set (Object_keys (transports st))"
    and "sid \<notin> set Object_prototype_names"
    and "sessionId rq = Some sid"
    and "parsed_body rq = Passed b"
  shows \<open>(sid \<noteq> [] \<longrightarrow> app st McpPost rq = (Respond 400 (Json invalid_session), st))
       \<and> app st McpGet rq = (Respond 400 (Json invalid_session), st)
       \<and> app st McpDelete rq = (Respond 400 (Json invalid_session), st)
       \<and> JSON_stringify invalid_session =
           Some ''{"jsonrpc":"2.0","error":{"code":-32000,"message":"Invalid session"},"id":null}''
       \<and> app st' McpPost (rq'\<lparr>sessionId := Some []\<rparr>) = app st' McpPost (rq'\<lparr>sessionId := None\<rparr>)\<close>
  using undefined_entry_rejected[OF assms] empty_header_as_none[of st' rq']
  by (simp add: invalid_session_text)

text \<open>
  The three routes at the header value \<^verbatim>\<open>does-not-exist\<close>, with one live
  session, and a session set-up sent with an empty header.
\<close>

theorem unknown_session_rejected_witness:
  \<open>''does-not-exist'' \<notin> set (Object_keys [(''82mvyr'', 0)])
   \<and> ''does-not-exist'' \<notin> set Object_prototype_names
   \<and> app \<lparr>transports = [(''82mvyr'', 0)], constructed = 1\<rparr> McpPost
        (request_bearing (Some ''does-not-exist''))
       = (Respond 400 (Json invalid_session), \<lparr>transports = [(''82mvyr'', 0)], constructed = 1\<rparr>)
   \<and> app \<lparr>transports = [(''82mvyr'', 0)], constructed = 1\<rparr> McpGet
        (request_bearing (Some ''does-not-exist''))
       = (Respond 400 (Json invalid_session), \<lparr>transports = [(''82mvyr'', 0)], constructed = 1\<rparr>)
   \<and> app \<lparr>transports = [(''82mvyr'', 0)], constructed = 1\<rparr> McpDelete
        (request_bearing (Some ''does-not-exist''))
       = (Respond 400 (Json invalid_session), \<lparr>transports = [(''82mvyr'', 0)], constructed = 1\<rparr>)
   \<and> app \<lparr>transports = [(''82mvyr'', 0)], constructed = 1\<rparr> McpPost
        (initialize_request ''0.k3j9xq7lw2'' \<lparr>sessionId := Some []\<rparr>)
       = app \<lparr>transports = [(''82mvyr'', 0)], constructed = 1\<rparr> McpPost
           (initialize_request ''0.k3j9xq7lw2'' \<lparr>sessionId := None\<rparr>)\<close>
  using unknown_session_rejected
    [of "''does-not-exist''" "\<lparr>transports = [(''82mvyr'', 0)], constructed = 1\<rparr>"
        "request_bearing (Some ''does-not-exist'')" "JObj []"
        "\<lparr>transports = [(''82mvyr'', 0)], constructed = 1\<rparr>" "initialize_request ''0.k3j9xq7lw2''"]
  by (simp add: Object_keys_def Object_prototype_names_def request_bearing_def)

text \<open>
  C1 as stated fails at header values that are not in the (empty) live table. The
  value \<^verbatim>\<open>constructor\<close> finds the inherited member of that name: the call of
  its missing \<^verbatim>\<open>handleRequest\<close> is answered with status 500 on all three
  routes. The empty value counts as no header on POST, which constructs a new
  transport and lets it complete a handshake. And a request whose body the parser
  refuses gets the error page of the framework, whatever its header.
\<close>

theorem unknown_session_counterexample:
  \<open>''constructor'' \<notin> set (Object_keys (transports initial))
   \<and> app initial McpPost (request_bearing (Some ''constructor''))
       = (Respond 500 (Json internal_server_error), initial)
   \<and> app initial McpGet (request_bearing (Some ''constructor''))
       = (Respond 500 (Text ''Internal server error''), initial)
   \<and> app initial McpDelete (request_bearing (Some ''constructor''))
       = (Respond 500 (Text ''Internal server error''), initial)
   \<and> [] \<notin> set (Object_keys (transports initial))
   \<and> app initial McpPost (initialize_request ''0.4fzyo82mvyr'' \<lparr>sessionId := Some []\<rparr>)
       = (Handled 0, \<lparr>transports = [(''82mvyr'', 0)], constructed = 1\<rparr>)
   \<and> ''does-not-exist'' \<notin> set (Object_keys (transports initial))
   \<and> app initial McpPost (request_bearing (Some ''does-not-exist'') \<lparr>parsed_body := Failed 400\<rparr>)
       = (Respond 400 ErrorPage, initial)
   \<and> Respond 400 ErrorPage \<noteq> Respond 400 (Json invalid_session)\<close>
  by (simp add: initial_def Object_keys_def app_def post_mcp_def get_mcp_def delete_mcp_def
      table_get_def Object_prototype_names_def request_bearing_def initialize_request_def
      handleRequest_def sessionIdGenerator_def onsessioninitialized_def)

subsection \<open>Closing a session\<close>

lemma run_callback_other_keys:
  "\<not> initializes sid c \<Longrightarrow> sid \<notin> set (Object_keys (transports st))
     \<Longrightarrow> sid \<notin> set (Object_keys (transports (run_callback t st c)))"
proof (cases c)
  case (Initialize random36)
  assume "\<not> initializes sid c" and "sid \<notin> set (Object_keys (transports st))"
  with Initialize show ?thesis
    by (auto simp: onsessioninitialized_def Object_keys_def dom_update)
next
  case (CloseSession i)
  assume "sid \<notin> set (Object_keys (transports st))"
  with CloseSession dom_delete_subset[of i "transports st"] show ?thesis
    by (auto simp: onsessionclosed_def Object_keys_def)
next
  case (Close h)
  assume "sid \<notin> set (Object_keys (transports st))"
  with Close dom_delete_subset[of "property_key h" "transports st"] show ?thesis
    by (auto simp: onclose_def Object_keys_def)
qed

lemma callbacks_other_keys:
  "\<not> list_ex (initializes sid) cs \<Longrightarrow> sid \<notin> set (Object_keys (transports st))
     \<Longrightarrow> sid \<notin> set (Object_keys (transports (foldl (run_callback t) st cs)))"
  by (induction cs arbitrary: st) (simp_all add: run_callback_other_keys)

lemma step_other_keys:
  assumes "\<not> registers sid e" and "sid \<notin> set (Object_keys (transports st))"
  shows "sid \<notin> set (Object_keys (transports (step st e)))"
proof (cases e)
  case (Request r rq)
  with assms(1) have quiet: "\<not> list_ex (initializes sid) (library rq)" by simp
  from assms(2)
  have "sid \<notin> set (Object_keys (transports (st\<lparr>constructed := Suc (constructed st)\<rparr>)))"
    by simp
  with assms(2) quiet app_state[of st r rq] Request show ?thesis
    by (auto simp: callbacks_other_keys)
next
  case (Library t c)
  with assms show ?thesis by (simp add: run_callback_other_keys)
qed

lemma run_other_keys:
  "\<not> list_ex (registers sid) es \<Longrightarrow> sid \<notin> set (Object_keys (transports st))
     \<Longrightarrow> sid \<notin> set (Object_keys (transports (run st es)))"
  by (induction es arbitrary: st) (simp_all add: step_other_keys)

lemma length_delete_present:
  "distinct (map fst al) \<Longrightarrow> map_of al k = Some v \<Longrightarrow> Suc (length (AList.delete k al)) = length al"
proof (induction al)
  case Nil
  then show ?case by simp
next
  case (Cons p al)
  show ?case
  proof (cases "fst p = k")
    case True
    with Cons.prems have "k \<notin> fst ` set al" by auto
    with True show ?thesis by (cases p) (simp add: delete_id)
  next
    case False
    with Cons show ?thesis by (cases p) auto
  qed
qed

lemma closing_callbacks:
  assumes "sid \<noteq> []" and "cs \<noteq> []" and "set cs \<subseteq> {CloseSession sid, Close (Some sid)}"
  shows "foldl (run_callback t) st cs = onsessionclosed st sid"
  using assms(2,3)
proof (induction cs rule: rev_nonempty_induct)
  case (single c)
  with assms(1) show ?case by (auto simp: onclose_def onsessionclosed_def)
next
  case (snoc c cs)
  then have "foldl (run_callback t) st cs = onsessionclosed st sid" by simp
  moreover from snoc.prems have "c = CloseSession sid \<or> c = Close (Some sid)" by simp
  ultimately show ?case
    using assms(1) by (auto simp: onclose_def onsessionclosed_def delete_idem)
qed

lemma delete_request_closes:
  assumes "map_of (transports st) sid = Some t" and "sid \<noteq> []"
  shows "app st McpDelete (delete_request sid) = (Handled t, onsessionclosed st sid)"
proof -
  from assms(1) have "table_get (transports st) sid = Own t" by (simp add: table_get_def)
  moreover have "foldl (run_callback t) st [CloseSession sid, Close (Some sid)]
      = onsessionclosed st sid"
    using assms(2) by (intro closing_callbacks) simp_all
  ultimately show ?thesis
    by (simp add: app_def delete_mcp_def delete_request_def handleRequest_def Let_def
        del: foldl.simps foldl_Cons)
qed

text \<open>
  C2. Take a session that is live in a reachable state under an identifier that is
  not empty and not the name of an inherited member. Every way of closing it leaves
  the same state: \<^verbatim>\<open>onclose\<close> alone, the whole processing of a DELETE, both in
  either order, and any non-empty sequence of the two closing callbacks. In that state
  the identifier is gone, every other entry is as before, and the table is shorter by
  exactly one. From then on, whatever requests and callbacks follow, as long as no
  handshake registers the same identifier again, the identifier stays out of the
  table, and POST, GET and DELETE that bear it and pass the body parser are answered
  with the 400 invalid-session response and change nothing.
\<close>

theorem closed_session_stays_closed:
  assumes active: "map_of (transports (run initial history)) sid = Some t"
    and nonempty: "sid \<noteq> []"
    and plain: "sid \<notin> set Object_prototype_names"
    and later: "\<not> list_ex (registers sid) es"
    and bearing: "sessionId rq = Some sid"
    and accepted: "parsed_body rq = Passed b"
  shows "step (run initial history) (Library t (Close (Some sid)))
           = onsessionclosed (run initial history) sid
       \<and> step (run initial history) (Request McpDelete (delete_request sid))
           = onsessionclosed (run initial history) sid
       \<and> run (run initial history)
           [Request McpDelete (delete_request sid), Library t (Close (Some sid))]
           = onsessionclosed (run initial history) sid
       \<and> run (run initial history)
           [Library t (Close (Some sid)), Request McpDelete (delete_request sid)]
           = onsessionclosed (run initial history) sid
       \<and> (cs \<noteq> [] \<and> set cs \<subseteq> {CloseSession sid, Close (Some sid)} \<longrightarrow>
            foldl (run_callback t) (run initial history) cs
              = onsessionclosed (run initial history) sid)
       \<and> map_of (transports (onsessionclosed (run initial history) sid))
           = (map_of (transports (run initial history)))(sid := None)
       \<and> Suc (length (Object_keys (transports (onsessionclosed (run initial history) sid))))
           = length (Object_keys (transports (run initial history)))
       \<and> sid \<notin> set (Object_keys (transports (run (onsessionclosed (run initial history) sid) es)))
       \<and> app (run (onsessionclosed (run initial history) sid) es) McpPost rq
           = (Respond 400 (Json invalid_session), run (onsessionclosed (run initial history) sid) es)
       \<and> app (run (onsessionclosed (run initial history) sid) es) McpGet rq
           = (Respond 400 (Json invalid_session), run (onsessionclosed (run initial history) sid) es)
       \<and> app (run (onsessionclosed (run initial history) sid) es) McpDelete rq
           = (Respond 400 (Json invalid_session), run (onsessionclosed (run initial history) sid) es)"
proof -
  define st where "st = run initial history"
  define closed where "closed = onsessionclosed st sid"
  have distinct: "distinct (map fst (transports st))"
    using reachable_distinct[of history] by (simp add: st_def Object_keys_def)
  have gone: "sid \<notin> set (Object_keys (transports closed))"
    using delete_notin_dom[of sid "transports st"]
    by (simp add: closed_def onsessionclosed_def Object_keys_def)
  have a: "step st (Library t (Close (Some sid))) = closed"
    using nonempty by (simp add: onclose_def onsessionclosed_def closed_def)
  have b: "step st (Request McpDelete (delete_request sid)) = closed"
    using delete_request_closes[of st sid t] active nonempty by (simp add: st_def closed_def)
  have again: "onclose closed (Some sid) = closed"
    using nonempty by (simp add: onclose_def onsessionclosed_def closed_def delete_idem)
  have c: "run st [Request McpDelete (delete_request sid), Library t (Close (Some sid))] = closed"
    using b again by simp
  have "app closed McpDelete (delete_request sid) = (Respond 400 (Json invalid_session), closed)"
    using undefined_entry_rejected[OF gone plain, of "delete_request sid" "JObj []"]
    by (simp add: delete_request_def)
  then have d: "run st [Library t (Close (Some sid)), Request McpDelete (delete_request sid)] = closed"
    using a by simp
  have e: "cs \<noteq> [] \<and> set cs \<subseteq> {CloseSession sid, Close (Some sid)} \<longrightarrow>
            foldl (run_callback t) st cs = closed"
    using closing_callbacks[OF nonempty, of cs t st] by (simp add: closed_def)
  have f: "map_of (transports closed) = (map_of (transports st))(sid := None)"
    by (simp add: closed_def onsessionclosed_def delete_conv')
  have g: "Suc (length (Object_keys (transports closed))) = length (Object_keys (transports st))"
    using length_delete_present[OF distinct] active
    by (simp add: closed_def onsessionclosed_def Object_keys_def st_def)
  have h: "sid \<notin> set (Object_keys (transports (run closed es)))"
    using later gone by (rule run_other_keys)
  from undefined_entry_rejected[OF h plain bearing accepted] nonempty a b c d e f g h
  show ?thesis unfolding st_def closed_def by blast
qed

text \<open>
  One session, closed, then asked for again after a DELETE and a transport close that
  bear its identifier, the set-up of another session and a health check.
\<close>

theorem closed_session_stays_closed_witness:
  "map_of (transports (run initial [Request McpPost (initialize_request ''0.4fzyo82mvyr'')]))
     ''82mvyr'' = Some 0
   \<and> ''82mvyr'' \<notin> set Object_prototype_names
   \<and> \<not> list_ex (registers ''82mvyr'')
        [Request McpDelete (delete_request ''82mvyr''), Library 0 (Close (Some ''82mvyr'')),
         Request McpPost (initialize_request ''0.k3j9xq7lw2''),
         Request Health (request_bearing None)]
   \<and> sessionId (request_bearing (Some ''82mvyr'')) = Some ''82mvyr''
   \<and> parsed_body (request_bearing (Some ''82mvyr'')) = Passed (JObj [])
   \<and> run (run initial [Request McpPost (initialize_request ''0.4fzyo82mvyr'')])
        [Request McpDelete (delete_request ''82mvyr''), Library 0 (Close (Some ''82mvyr''))]
       = \<lparr>transports = [], constructed = 1\<rparr>
   \<and> foldl (run_callback 0) (run initial [Request McpPost (initialize_request ''0.4fzyo82mvyr'')])
        [Close (Some ''82mvyr''), CloseSession ''82mvyr'', Close (Some ''82mvyr'')]
       = \<lparr>transports = [], constructed = 1\<rparr>
   \<and> app \<lparr>transports = [(''q7lw2'', 1)], constructed = 2\<rparr> McpGet
        (request_bearing (Some ''82mvyr''))
       = (Respond 400 (Json invalid_session), \<lparr>transports = [(''q7lw2'', 1)], constructed = 2\<rparr>)"
proof -
  let ?history = "[Request McpPost (initialize_request ''0.4fzyo82mvyr'')]"
  let ?es = "[Request McpDelete (delete_request ''82mvyr''), Library 0 (Close (Some ''82mvyr'')),
         Request McpPost (initialize_request ''0.k3j9xq7lw2''),
         Request Health (request_bearing None)]"
  let ?cs = "[Close (Some ''82mvyr''), CloseSession ''82mvyr'', Close (Some ''82mvyr'')]"
  have active: "map_of (transports (run initial ?history)) ''82mvyr'' = Some 0"
    by (simp add: http_unfold)
  have plain: "''82mvyr'' \<notin> set Object_prototype_names"
    by (simp add: Object_prototype_names_def)
  have later: "\<not> list_ex (registers ''82mvyr'') ?es"
    by (simp add: http_unfold)
  have bearing: "sessionId (request_bearing (Some ''82mvyr'')) = Some ''82mvyr''"
    and accepted: "parsed_body (request_bearing (Some ''82mvyr'')) = Passed (JObj [])"
    by (simp_all add: request_bearing_def)
  have closed: "onsessionclosed (run initial ?history) ''82mvyr'' = \<lparr>transports = [], constructed = 1\<rparr>"
    by (simp add: http_unfold)
  have final: "run \<lparr>transports = [], constructed = 1\<rparr> ?es
      = \<lparr>transports = [(''q7lw2'', 1)], constructed = 2\<rparr>"
    by (simp add: http_unfold)
  have callbacks: "?cs \<noteq> [] \<and> set ?cs \<subseteq> {CloseSession ''82mvyr'', Close (Some ''82mvyr'')}"
    by simp
  have nonempty: "''82mvyr'' \<noteq> []" by simp
  note claim = closed_session_stays_closed
    [OF active nonempty plain later bearing accepted, of ?cs]
  from claim have "run (run initial ?history)
        [Request McpDelete (delete_request ''82mvyr''), Library 0 (Close (Some ''82mvyr''))]
       = onsessionclosed (run initial ?history) ''82mvyr''"
    by blast
  then have both: "run (run initial ?history)
        [Request McpDelete (delete_request ''82mvyr''), Library 0 (Close (Some ''82mvyr''))]
       = \<lparr>transports = [], constructed = 1\<rparr>"
    by (simp only: closed)
  from claim have "?cs \<noteq> [] \<and> set ?cs \<subseteq> {CloseSession ''82mvyr'', Close (Some ''82mvyr'')} \<longrightarrow>
      foldl (run_callback 0) (run initial ?history) ?cs
        = onsessionclosed (run initial ?history) ''82mvyr''"
    by blast
  with callbacks have "foldl (run_callback 0) (run initial ?history) ?cs
        = onsessionclosed (run initial ?history) ''82mvyr''"
    by (rule rev_mp)
  then have raced: "foldl (run_callback 0) (run initial ?history) ?cs
       = \<lparr>transports = [], constructed = 1\<rparr>"
    by (simp only: closed)
  from claim have "app (run (onsessionclosed (run initial ?history) ''82mvyr'') ?es) McpGet
        (request_bearing (Some ''82mvyr''))
       = (Respond 400 (Json invalid_session),
          run (onsessionclosed (run initial ?history) ''82mvyr'') ?es)"
    by blast
  then have rejected: "app \<lparr>transports = [(''q7lw2'', 1)], constructed = 2\<rparr> McpGet
        (request_bearing (Some ''82mvyr''))
       = (Respond 400 (Json invalid_session), \<lparr>transports = [(''q7lw2'', 1)], constructed = 2\<rparr>)"
    by (simp only: closed final)
  show ?thesis
    by (intro conjI active plain later bearing accepted both raced rejected)
qed

text \<open>
  C2 as stated fails in four ways. A closed identifier comes back: nothing keeps the
  generator from returning it again, and after the handshake of the new session a
  GET bearing it is handed to the new transport. A request bearing a closed
  identifier whose body the parser refuses gets the error page of the framework.
  After the session \<^verbatim>\<open>constructor\<close> is closed by DELETE, a GET bearing that
  name finds the inherited member and is answered with 500. And \<^verbatim>\<open>onclose\<close>
  leaves an entry under the empty identifier where it is, its guard being false.
\<close>

theorem closed_session_counterexample:
  "run initial [Request McpPost (initialize_request ''0.4fzyo82mvyr'')]
     = \<lparr>transports = [(''82mvyr'', 0)], constructed = 1\<rparr>
   \<and> run initial [Request McpPost (initialize_request ''0.4fzyo82mvyr''),
                   Request McpDelete (delete_request ''82mvyr'')]
     = \<lparr>transports = [], constructed = 1\<rparr>
   \<and> app \<lparr>transports = [], constructed = 1\<rparr> McpGet (request_bearing (Some ''82mvyr''))
     = (Respond 400 (Json invalid_session), \<lparr>transports = [], constructed = 1\<rparr>)
   \<and> run initial [Request McpPost (initialize_request ''0.4fzyo82mvyr''),
                   Request McpDelete (delete_request ''82mvyr''),
                   Request McpPost (initialize_request ''0.9k2wq82mvyr'')]
     = \<lparr>transports = [(''82mvyr'', 1)], constructed = 2\<rparr>
   \<and> app \<lparr>transports = [(''82mvyr'', 1)], constructed = 2\<rparr> McpGet
        (request_bearing (Some ''82mvyr''))
     = (Handled 1, \<lparr>transports = [(''82mvyr'', 1)], constructed = 2\<rparr>)
   \<and> app \<lparr>transports = [], constructed = 1\<rparr> McpGet
        (request_bearing (Some ''82mvyr'') \<lparr>parsed_body := Failed 400\<rparr>)
     = (Respond 400 ErrorPage, \<lparr>transports = [], constructed = 1\<rparr>)
   \<and> app \<lparr>transports = [(''constructor'', 0)], constructed = 1\<rparr> McpDelete
        (delete_request ''constructor'')
     = (Handled 0, \<lparr>transports = [], constructed = 1\<rparr>)
   \<and> app \<lparr>transports = [], constructed = 1\<rparr> McpGet (request_bearing (Some ''constructor''))
     = (Respond 500 (Text ''Internal server error''), \<lparr>transports = [], constructed = 1\<rparr>)
   \<and> step \<lparr>transports = [([], 0)], constructed = 1\<rparr> (Library 0 (Close (Some [])))
     = \<lparr>transports = [([], 0)], constructed = 1\<rparr>"
  by (simp add: http_unfold)

subsection \<open>Opening a session\<close>

lemma update_absent: "k \<notin> fst ` set al \<Longrightarrow> AList.update k v al = al @ [(k, v)]"
  by (induction al) auto

lemma run_callback_constructed: "constructed (run_callback t st c) = constructed st"
  by (cases c) (simp_all add: onsessioninitialized_def onsessionclosed_def onclose_def)

lemma callbacks_constructed: "constructed (foldl (run_callback t) st cs) = constructed st"
  by (induction cs arbitrary: st) (simp_all add: run_callback_constructed)

lemma post_without_header:
  assumes "\<not> header_truthy (sessionId rq)" and "parsed_body rq = Passed b"
  shows "app st McpPost rq =
     (if connect_rejects rq
      then (Respond 500 (Json internal_server_error), st\<lparr>constructed := Suc (constructed st)\<rparr>)
      else handleRequest (st\<lparr>constructed := Suc (constructed st)\<rparr>) (constructed st) rq
             (Json internal_server_error))"
  using assms by (simp add: app_def post_mcp_def Let_def)

text \<open>
  C3, as the code implements it. A POST without session header (or with an empty
  one) whose body the parser accepts constructs a new transport. When
  \<^verbatim>\<open>connect\<close> is rejected the answer is 500 and the table is as before. An
  identifier that is not in the table before the request is not in it afterwards
  unless the handshake that generates it completes during the request; the same holds
  for every step of the server. When \<^verbatim>\<open>connect\<close> succeeds, the handshake
  completes and the generated identifier is not in the table, the table afterwards is
  the table before followed by that identifier, which resolves to the new transport,
  and the request has been handed to that transport.
\<close>

theorem new_session_registration:
  assumes "\<not> header_truthy (sessionId rq)" and "parsed_body rq = Passed b"
  shows "constructed (snd (app st McpPost rq)) = Suc (constructed st)
   \<and> (connect_rejects rq \<longrightarrow>
        fst (app st McpPost rq) = Respond 500 (Json internal_server_error)
        \<and> transports (snd (app st McpPost rq)) = transports st)
   \<and> (\<not> list_ex (initializes ident) (library rq) \<and> ident \<notin> set (Object_keys (transports st)) \<longrightarrow>
        ident \<notin> set (Object_keys (transports (snd (app st McpPost rq)))))
   \<and> (\<not> connect_rejects rq \<and> library rq = [Initialize random36]
        \<and> sessionIdGenerator random36 \<notin> set (Object_keys (transports st)) \<longrightarrow>
        transports (snd (app st McpPost rq))
          = transports st @ [(sessionIdGenerator random36, constructed st)]
        \<and> table_get (transports (snd (app st McpPost rq))) (sessionIdGenerator random36)
            = Own (constructed st)
        \<and> (\<not> handleRequest_rejects rq \<longrightarrow> fst (app st McpPost rq) = Handled (constructed st)))
   \<and> (\<not> registers ident e \<and> ident \<notin> set (Object_keys (transports st')) \<longrightarrow>
        ident \<notin> set (Object_keys (transports (step st' e))))"
proof (intro conjI impI)
  note post = post_without_header[OF assms, of st]
  show "constructed (snd (app st McpPost rq)) = Suc (constructed st)"
    by (simp add: post handleRequest_state callbacks_constructed)
  show "fst (app st McpPost rq) = Respond 500 (Json internal_server_error)"
    if "connect_rejects rq"
    using that by (simp add: post)
  show "transports (snd (app st McpPost rq)) = transports st" if "connect_rejects rq"
    using that by (simp add: post)
  show "ident \<notin> set (Object_keys (transports (snd (app st McpPost rq))))"
    if "\<not> list_ex (initializes ident) (library rq) \<and> ident \<notin> set (Object_keys (transports st))"
    using that step_other_keys[of ident "Request McpPost rq" st] by simp
  show "ident \<notin> set (Object_keys (transports (step st' e)))"
    if "\<not> registers ident e \<and> ident \<notin> set (Object_keys (transports st'))"
    using that step_other_keys[of ident e st'] by simp
next
  assume fresh: "\<not> connect_rejects rq \<and> library rq = [Initialize random36]
        \<and> sessionIdGenerator random36 \<notin> set (Object_keys (transports st))"
  note post = post_without_header[OF assms, of st]
  from fresh have absent: "sessionIdGenerator random36 \<notin> fst ` set (transports st)"
    by (simp add: Object_keys_def)
  from fresh show registered: "transports (snd (app st McpPost rq))
          = transports st @ [(sessionIdGenerator random36, constructed st)]"
    by (simp add: post handleRequest_state onsessioninitialized_def update_absent[OF absent])
  from absent have "map_of (transports st) (sessionIdGenerator random36) = None"
    by (simp add: map_of_eq_None_iff)
  then show "table_get (transports (snd (app st McpPost rq))) (sessionIdGenerator random36)
            = Own (constructed st)"
    by (simp add: registered table_get_def map_add_def)
  show "fst (app st McpPost rq) = Handled (constructed st)" if "\<not> handleRequest_rejects rq"
    using that fresh by (simp add: post handleRequest_def Let_def)
qed

text \<open>
  With one live session: a session set-up whose identifier \<^verbatim>\<open>q7lw2\<close> is new, the
  same set-up while \<^verbatim>\<open>connect\<close> is rejected, and a POST during which no
  handshake completes.
\<close>

theorem new_session_registration_witness:
  "\<not> header_truthy (sessionId (initialize_request ''0.k3j9xq7lw2''))
   \<and> parsed_body (initialize_request ''0.k3j9xq7lw2'') = Passed (JObj [])
   \<and> sessionIdGenerator ''0.k3j9xq7lw2'' = ''q7lw2''
   \<and> ''q7lw2'' \<notin> set (Object_keys [(''82mvyr'', 0)])
   \<and> app \<lparr>transports = [(''82mvyr'', 0)], constructed = 1\<rparr> McpPost
        (initialize_request ''0.k3j9xq7lw2'')
       = (Handled 1, \<lparr>transports = [(''82mvyr'', 0), (''q7lw2'', 1)], constructed = 2\<rparr>)
   \<and> app \<lparr>transports = [(''82mvyr'', 0)], constructed = 1\<rparr> McpPost
        (initialize_request ''0.k3j9xq7lw2'' \<lparr>connect_rejects := True\<rparr>)
       = (Respond 500 (Json internal_server_error),
          \<lparr>transports = [(''82mvyr'', 0)], constructed = 2\<rparr>)
   \<and> app \<lparr>transports = [(''82mvyr'', 0)], constructed = 1\<rparr> McpPost (request_bearing None)
       = (Handled 1, \<lparr>transports = [(''82mvyr'', 0)], constructed = 2\<rparr>)"
proof -
  let ?st = "\<lparr>transports = [(''82mvyr'', 0)], constructed = 1\<rparr>"
  let ?rq = "initialize_request ''0.k3j9xq7lw2''"
  have header: "\<not> header_truthy (sessionId ?rq)"
    and accepted: "parsed_body ?rq = Passed (JObj [])"
    by (simp_all add: initialize_request_def)
  have generated: "sessionIdGenerator ''0.k3j9xq7lw2'' = ''q7lw2''"
    by (simp add: sessionIdGenerator_def)
  have fresh: "''q7lw2'' \<notin> set (Object_keys [(''82mvyr'', 0)])"
    by (simp add: Object_keys_def)
  note claim = new_session_registration
    [OF header accepted, of ?st "''q7lw2''" "''0.k3j9xq7lw2''"]
  from claim generated fresh
  have "transports (snd (app ?st McpPost ?rq)) = transports ?st @ [(''q7lw2'', constructed ?st)]
      \<and> fst (app ?st McpPost ?rq) = Handled (constructed ?st)
      \<and> constructed (snd (app ?st McpPost ?rq)) = Suc (constructed ?st)"
    by (simp add: initialize_request_def)
  then have completed: "app ?st McpPost ?rq
       = (Handled 1, \<lparr>transports = [(''82mvyr'', 0), (''q7lw2'', 1)], constructed = 2\<rparr>)"
    by (cases "app ?st McpPost ?rq") (auto simp: http_state.equality)
  have refused: "app ?st McpPost (?rq \<lparr>connect_rejects := True\<rparr>)
       = (Respond 500 (Json internal_server_error),
          \<lparr>transports = [(''82mvyr'', 0)], constructed = 2\<rparr>)"
    by (simp add: http_unfold)
  have pending: "app ?st McpPost (request_bearing None)
       = (Handled 1, \<lparr>transports = [(''82mvyr'', 0)], constructed = 2\<rparr>)"
    by (simp add: http_unfold)
  show ?thesis
    by (intro conjI header accepted generated fresh completed refused pending)
qed

text \<open>
  C3 as stated fails when two random draws agree from the eighth character on: the
  identifier generated for the second transport is in the live table at that moment.
  Nor is a transport constructed for a POST whose body the parser refuses.
\<close>

theorem fresh_identifier_counterexample:
  "sessionIdGenerator ''0.9k2wq82mvyr'' = ''82mvyr''
   \<and> run initial [Request McpPost (initialize_request ''0.4fzyo82mvyr'')]
       = \<lparr>transports = [(''82mvyr'', 0)], constructed = 1\<rparr>
   \<and> sessionIdGenerator ''0.9k2wq82mvyr''
       \<in> set (Object_keys (transports \<lparr>transports = [(''82mvyr'', 0)], constructed = 1\<rparr>))
   \<and> app \<lparr>transports = [(''82mvyr'', 0)], constructed = 1\<rparr> McpPost
        (initialize_request ''0.9k2wq82mvyr'')
       = (Handled 1, \<lparr>transports = [(''82mvyr'', 1)], constructed = 2\<rparr>)
   \<and> app \<lparr>transports = [(''82mvyr'', 0)], constructed = 1\<rparr> McpPost
        (initialize_request ''0.k3j9xq7lw2'' \<lparr>parsed_body := Failed 400\<rparr>)
       = (Respond 400 ErrorPage, \<lparr>transports = [(''82mvyr'', 0)], constructed = 1\<rparr>)"
  by (simp add: http_unfold)


subsection \<open>The health endpoint\<close>


















section \<open>Properties of the tool handlers\<close>

lemma property_absent: "k \<notin> fst ` set object \<Longrightarrow> property object k = JUndefined"
  by (simp add: property_def map_of_eq_None_iff[THEN iffD2])

lemma property_delete_same: "property (AList.delete k object) k = JUndefined"
  by (simp add: property_def delete_conv')

lemma property_delete_other: "k' \<noteq> k \<Longrightarrow> property (AList.delete k object) k' = property object k'"
  by (simp add: property_def delete_conv')

lemma property_present: "map_of object k = Some v \<Longrightarrow> property object k = v"
  by (simp add: property_def)

lemma project_path_example:
  "project_path large (JStr ''group/repo'') = Inr ''/projects/group%2Frepo''"
  by (simp add: project_path_def encodeURIComponent_def uri_unreserved_def DIGIT_def)

lemma project_path_number: "project_path large (JNum 42) = Inr ''/projects/42''"
  by (simp add: project_path_def encodeURIComponent_def uri_unreserved_def DIGIT_def number_text_def digit_def)

text \<open>
  Every handler starts with the same kind of guard: as soon as one of its required
  arguments is not truthy it throws its invalid-params error, before any conversion
  and before any request.
\<close>

lemma required_guard:
  assumes "f \<in> set (required tool)"
    and "\<not> truthy (property (arguments_or_empty arguments) f)"
  shows "handler_of large tool arguments ax
           = (Inl (McpError InvalidParams (required_message tool)), [])"
  using assms
  by (cases tool)
     (auto simp: listProjects_def getProject_def listBranches_def listMergeRequests_def
        getMergeRequest_def getMergeRequestChanges_def createMergeRequestNote_def listIssues_def
        getRepositoryFile_def compareBranches_def updateMergeRequest_def
        createMergeRequestNoteInternal_def createMergeRequestDiscussion_def
        createMergeRequestDiscussionSimple_def throw_def Let_def)

lemma required_named: "f \<in> set (required tool) \<Longrightarrow> sublist f (required_message tool)"
proof -
  have "list_all (\<lambda>f. sublist f (required_message tool)) (required tool)"
    by (cases tool) (simp_all, code_simp+)
  then show "f \<in> set (required tool) \<Longrightarrow> sublist f (required_message tool)"
    by (simp add: list_all_iff)
qed

lemma call_tool_registered:
  "toolRegistry name = Some handler \<Longrightarrow>
   call_tool toolRegistry handleApiError ax name arguments =
     (case handler arguments ax of
        (Inl error, calls) \<Rightarrow>
          if is_McpError error then (Inl error, calls)
          else (Inl (handleApiError error ''Error executing GitLab operation''), calls)
      | (Inr result, calls) \<Rightarrow> (Inr result, calls))"
  by (simp add: call_tool_def)

subsection \<open>Missing required arguments\<close>

text \<open>
  C5. When the arguments of a call lack an argument that the handler requires, the
  handler throws the invalid-params error whose message names that argument, without
  any GitLab request; \<^verbatim>\<open>tools/call\<close> on a name registered for the handler passes
  the error on as it is, again without any request. For \<^verbatim>\<open>get_project\<close> the
  message is \<^verbatim>\<open>project_id is required\<close>.
\<close>

theorem missing_required_argument:
  assumes "f \<in> set (required tool)"
    and "f \<notin> fst ` set (arguments_or_empty arguments)"
  shows "handler_of large tool arguments ax
           = (Inl (McpError InvalidParams (required_message tool)), [])
       \<and> sublist f (required_message tool)
       \<and> (toolRegistry name = Some (handler_of large tool) \<longrightarrow>
            call_tool toolRegistry handleApiError ax name arguments
              = (Inl (McpError InvalidParams (required_message tool)), []))"
proof -
  from assms(2) have "\<not> truthy (property (arguments_or_empty arguments) f)"
    by (simp add: property_absent)
  with assms(1) have "handler_of large tool arguments ax
           = (Inl (McpError InvalidParams (required_message tool)), [])"
    by (rule required_guard)
  with assms(1) show ?thesis
    by (simp add: required_named call_tool_registered)
qed

text \<open>
  \<^verbatim>\<open>get_project\<close> called with a \<^verbatim>\<open>search\<close> argument only, directly and
  through a registry that holds it.
\<close>

theorem missing_required_argument_witness:
  "''project_id'' \<in> set (required GetProject)
   \<and> ''project_id'' \<notin> fst ` set (arguments_or_empty (Some [(''search'', JStr ''x'')]))
   \<and> getProject number_text (Some [(''search'', JStr ''x'')]) (\<lambda>rq. Inr JNull)
        = (Inl (McpError InvalidParams ''project_id is required''), [])
   \<and> sublist ''project_id'' ''project_id is required''
   \<and> call_tool [''get_project'' \<mapsto> getProject number_text] (\<lambda>e m. e) (\<lambda>rq. Inr JNull)
        ''get_project'' (Some [(''search'', JStr ''x'')])
        = (Inl (McpError InvalidParams ''project_id is required''), [])"
  using missing_required_argument
    [of "''project_id''" GetProject "Some [(''search'', JStr ''x'')]" number_text
        "\<lambda>rq. Inr JNull" "[''get_project'' \<mapsto> getProject number_text]" "''get_project''"
        "\<lambda>e m. e"]
  by (simp add: arguments_or_empty_def)

subsection \<open>Unknown tools\<close>

lemma call_tool_unresolved:
  "toolRegistry toolName = None \<Longrightarrow>
   call_tool toolRegistry handleApiError ax toolName arguments
     = (Inl (McpError InvalidRequest (''Unknown tool: '' @ toolName)), [])"
  by (simp add: call_tool_def throw_def)

lemma registry_get_inherited:
  "toolName \<notin> fst ` set registry \<Longrightarrow> toolName \<in> set Object_prototype_names \<Longrightarrow>
   registry_get registry toolName
     = Some (\<lambda>arguments axiosInstance.
               inherited_member toolName (request_params toolName arguments))"
  by (simp add: registry_get_def map_of_eq_None_iff[THEN iffD2])

lemma registry_get_undefined:
  "toolName \<notin> fst ` set registry \<Longrightarrow> toolName \<notin> set Object_prototype_names \<Longrightarrow>
   registry_get registry toolName = None"
  by (simp add: registry_get_def map_of_eq_None_iff[THEN iffD2])

text \<open>
  C6. What \<^verbatim>\<open>tools/call\<close> does with a name that is not a key of the registry.
  When the name is not the name of an inherited member either, the dispatch throws
  the invalid-request protocol error \<^verbatim>\<open>Unknown tool: <name>\<close>. When it is,
  the lookup \<^verbatim>\<open>toolRegistry[toolName]\<close> finds the inherited member, the test
  \<^verbatim>\<open>!handler\<close> lets it pass and it is called with the parameters of the
  request: for \<^verbatim>\<open>constructor\<close> the call succeeds and the parameters come back
  as the result of the tool, for \<^verbatim>\<open>toString\<close> the text
  \<^verbatim>\<open>[object Undefined]\<close> does, and for the other members the TypeError of
  the call goes to \<^verbatim>\<open>handleApiError\<close>. None of the three is the unknown-tool
  error. In every case the outcome is a value of the dispatch and no GitLab request
  is made.
\<close>

theorem unknown_tool_inherited_member:
  assumes "toolName \<notin> fst ` set registry"
  shows "(toolName \<notin> set Object_prototype_names \<longrightarrow>
            call_tool (registry_get registry) handleApiError ax toolName arguments
              = (Inl (McpError InvalidRequest (''Unknown tool: '' @ toolName)), []))
       \<and> (toolName = ''constructor'' \<longrightarrow>
            call_tool (registry_get registry) handleApiError ax toolName arguments
              = (Inr (Returned (request_params toolName arguments)), []))
       \<and> (toolName = ''toString'' \<longrightarrow>
            call_tool (registry_get registry) handleApiError ax toolName arguments
              = (Inr (Returned (JStr ''[object Undefined]'')), []))
       \<and> (toolName \<in> set Object_prototype_names \<and> toolName \<noteq> ''constructor''
            \<and> toolName \<noteq> ''toString'' \<longrightarrow>
            call_tool (registry_get registry) handleApiError ax toolName arguments
              = (Inl (handleApiError TypeError ''Error executing GitLab operation''), []))"
proof (intro conjI impI)
  assume "toolName \<notin> set Object_prototype_names"
  with assms have "registry_get registry toolName = None"
    by (rule registry_get_undefined)
  then show "call_tool (registry_get registry) handleApiError ax toolName arguments
      = (Inl (McpError InvalidRequest (''Unknown tool: '' @ toolName)), [])"
    by (rule call_tool_unresolved)
next
  assume name: "toolName = ''constructor''"
  then have "toolName \<in> set Object_prototype_names"
    by (simp add: Object_prototype_names_def)
  with assms have "registry_get registry toolName
      = Some (\<lambda>arguments axiosInstance.
                inherited_member toolName (request_params toolName arguments))"
    by (rule registry_get_inherited)
  with name show "call_tool (registry_get registry) handleApiError ax toolName arguments
      = (Inr (Returned (request_params toolName arguments)), [])"
    by (simp add: call_tool_registered inherited_member_def return_def)
next
  assume name: "toolName = ''toString''"
  then have "toolName \<in> set Object_prototype_names"
    by (simp add: Object_prototype_names_def)
  with assms have "registry_get registry toolName
      = Some (\<lambda>arguments axiosInstance.
                inherited_member toolName (request_params toolName arguments))"
    by (rule registry_get_inherited)
  with name show "call_tool (registry_get registry) handleApiError ax toolName arguments
      = (Inr (Returned (JStr ''[object Undefined]'')), [])"
    by (simp add: call_tool_registered inherited_member_def return_def)
next
  assume name: "toolName \<in> set Object_prototype_names \<and> toolName \<noteq> ''constructor''
    \<and> toolName \<noteq> ''toString''"
  with assms have "registry_get registry toolName
      = Some (\<lambda>arguments axiosInstance.
                inherited_member toolName (request_params toolName arguments))"
    by (simp add: registry_get_inherited)
  with name show "call_tool (registry_get registry) handleApiError ax toolName arguments
      = (Inl (handleApiError TypeError ''Error executing GitLab operation''), [])"
    by (simp add: call_tool_registered inherited_member_def throw_def)
qed

text \<open>
  A registry that holds \<^verbatim>\<open>get_project\<close> only, asked for
  \<^verbatim>\<open>constructor\<close>, for \<^verbatim>\<open>hasOwnProperty\<close> and for a name that no
  object has.
\<close>

theorem unknown_tool_inherited_member_witness:
  "''constructor'' \<notin> fst ` set [(''get_project'', getProject number_text)]
   \<and> call_tool (registry_get [(''get_project'', getProject number_text)])
        (\<lambda>e m. McpError InternalError m) (\<lambda>rq. Inr JNull) ''constructor'' (Some [])
       = (Inr (Returned (JObj [(''name'', JStr ''constructor''), (''arguments'', JObj [])])), [])
   \<and> ''hasOwnProperty'' \<notin> fst ` set [(''get_project'', getProject number_text)]
   \<and> ''hasOwnProperty'' \<in> set Object_prototype_names
   \<and> call_tool (registry_get [(''get_project'', getProject number_text)])
        (\<lambda>e m. McpError InternalError m) (\<lambda>rq. Inr JNull) ''hasOwnProperty'' (Some [])
       = (Inl (McpError InternalError ''Error executing GitLab operation''), [])
   \<and> ''no_such_tool'' \<notin> fst ` set [(''get_project'', getProject number_text)]
   \<and> ''no_such_tool'' \<notin> set Object_prototype_names
   \<and> call_tool (registry_get [(''get_project'', getProject number_text)])
        (\<lambda>e m. McpError InternalError m) (\<lambda>rq. Inr JNull) ''no_such_tool'' (Some [])
       = (Inl (McpError InvalidRequest ''Unknown tool: no_such_tool''), [])"
  using unknown_tool_inherited_member
      [of "''constructor''" "[(''get_project'', getProject number_text)]"
          "\<lambda>e m. McpError InternalError m" "\<lambda>rq. Inr JNull" "Some []"]
    unknown_tool_inherited_member
      [of "''hasOwnProperty''" "[(''get_project'', getProject number_text)]"
          "\<lambda>e m. McpError InternalError m" "\<lambda>rq. Inr JNull" "Some []"]
    unknown_tool_inherited_member
      [of "''no_such_tool''" "[(''get_project'', getProject number_text)]"
          "\<lambda>e m. McpError InternalError m" "\<lambda>rq. Inr JNull" "Some []"]
  by (simp add: Object_prototype_names_def request_params_def)

subsection \<open>Failures of a handler\<close>

text \<open>
  C7. When the resolved handler throws, \<^verbatim>\<open>tools/call\<close> throws the very same
  value if it is a protocol error, and otherwise the value that
  \<^verbatim>\<open>handleApiError\<close> returns for the failure and the fixed message
  \<^verbatim>\<open>Error executing GitLab operation\<close>. The GitLab requests made before the
  failure are those of the handler.
\<close>

theorem handler_failure_routing:
  assumes "toolRegistry toolName = Some handler"
    and "handler arguments ax = (Inl error, calls)"
  shows "(is_McpError error \<longrightarrow>
            call_tool toolRegistry handleApiError ax toolName arguments = (Inl error, calls))
       \<and> (\<not> is_McpError error \<longrightarrow>
            call_tool toolRegistry handleApiError ax toolName arguments
              = (Inl (handleApiError error ''Error executing GitLab operation''), calls))"
  using assms by (simp add: call_tool_registered)

text \<open>
  \<^verbatim>\<open>get_project\<close> without \<^verbatim>\<open>project_id\<close>, and with one while GitLab answers
  404.
\<close>

theorem handler_failure_routing_witness:
  "[''get_project'' \<mapsto> getProject number_text] ''get_project'' = Some (getProject number_text)
   \<and> getProject number_text (Some []) (\<lambda>rq. Inl (AxiosError (Some 404) JNull))
        = (Inl (McpError InvalidParams ''project_id is required''), [])
   \<and> is_McpError (McpError InvalidParams ''project_id is required'')
   \<and> call_tool [''get_project'' \<mapsto> getProject number_text] (\<lambda>e m. McpError InternalError m)
        (\<lambda>rq. Inl (AxiosError (Some 404) JNull)) ''get_project'' (Some [])
        = (Inl (McpError InvalidParams ''project_id is required''), [])
   \<and> getProject number_text (Some [(''project_id'', JNum 42)]) (\<lambda>rq. Inl (AxiosError (Some 404) JNull))
        = (Inl (AxiosError (Some 404) JNull), [AxiosGet ''/projects/42'' []])
   \<and> \<not> is_McpError (AxiosError (Some 404) JNull)
   \<and> call_tool [''get_project'' \<mapsto> getProject number_text] (\<lambda>e m. McpError InternalError m)
        (\<lambda>rq. Inl (AxiosError (Some 404) JNull)) ''get_project'' (Some [(''project_id'', JNum 42)])
        = (Inl (McpError InternalError ''Error executing GitLab operation''),
           [AxiosGet ''/projects/42'' []])"
proof -
  have registered: "[''get_project'' \<mapsto> getProject number_text] ''get_project'' = Some (getProject number_text)"
    by simp
  have refused: "getProject number_text (Some []) (\<lambda>rq. Inl (AxiosError (Some 404) JNull))
        = (Inl (McpError InvalidParams ''project_id is required''), [])"
    by (simp add: getProject_def arguments_or_empty_def property_def throw_def)
  have failed: "getProject number_text (Some [(''project_id'', JNum 42)]) (\<lambda>rq. Inl (AxiosError (Some 404) JNull))
        = (Inl (AxiosError (Some 404) JNull), [AxiosGet ''/projects/42'' []])"
    by (simp add: getProject_def arguments_or_empty_def property_def await_def evaluate_def
        project_path_number)
  from handler_failure_routing
      [of "[''get_project'' \<mapsto> getProject number_text]" "''get_project''" "getProject number_text" "Some []"
          "\<lambda>rq. Inl (AxiosError (Some 404) JNull)" "McpError InvalidParams ''project_id is required''"
          "[]" "\<lambda>e m. McpError InternalError m"]
    handler_failure_routing
      [of "[''get_project'' \<mapsto> getProject number_text]" "''get_project''" "getProject number_text"
          "Some [(''project_id'', JNum 42)]"
          "\<lambda>rq. Inl (AxiosError (Some 404) JNull)" "AxiosError (Some 404) JNull"
          "[AxiosGet ''/projects/42'' []]" "\<lambda>e m. McpError InternalError m"]
    registered refused failed
  show ?thesis by simp
qed

subsection \<open>Falsy arguments\<close>

lemma listProjects_delete_per_page:
  "\<not> truthy (property args ''per_page'') \<Longrightarrow>
   listProjects large (Some args) ax = listProjects large (Some (AList.delete ''per_page'' args)) ax"
  by (simp add: listProjects_def arguments_or_empty_def Let_def property_delete_same
      property_delete_other)

lemma listProjects_per_page_default:
  "\<not> truthy (property args ''per_page'') \<Longrightarrow>
   snd (listProjects large (Some args) ax)
     = [AxiosGet ''/projects''
          [(''search'', property args ''search''),
           (''owned'', if property args ''owned'' = JBool True then JBool True else JUndefined),
           (''membership'',
            if property args ''membership'' = JBool True then JBool True else JUndefined),
           (''per_page'', JNum 20)]]"
  by (simp add: listProjects_def arguments_or_empty_def Let_def await_def return_def
      split: sum.splits)

text \<open>
  C9. A required argument that is supplied with a falsy value is treated as if it
  were not supplied: the handler does exactly what it does on the arguments without
  it, namely throw its invalid-params error, whose message names the argument. The
  same holds for \<^verbatim>\<open>per_page\<close> of \<^verbatim>\<open>list_projects\<close>: with a falsy value
  the request to GitLab carries \<^verbatim>\<open>per_page\<close> 20, as it does without the
  argument.
\<close>

theorem falsy_argument_as_absent:
  "(f \<in> set (required tool) \<and> map_of args f = Some v \<and> \<not> truthy v \<longrightarrow>
      handler_of large tool (Some args) ax = handler_of large tool (Some (AList.delete f args)) ax
      \<and> handler_of large tool (Some args) ax
          = (Inl (McpError InvalidParams (required_message tool)), [])
      \<and> sublist f (required_message tool))
   \<and> (map_of args ''per_page'' = Some v \<and> \<not> truthy v \<longrightarrow>
      listProjects large (Some args) ax = listProjects large (Some (AList.delete ''per_page'' args)) ax
      \<and> snd (listProjects large (Some args) ax)
          = [AxiosGet ''/projects''
               [(''search'', property args ''search''),
                (''owned'', if property args ''owned'' = JBool True then JBool True else JUndefined),
                (''membership'',
                 if property args ''membership'' = JBool True then JBool True else JUndefined),
                (''per_page'', JNum 20)]])"
proof (intro conjI impI)
  assume a: "f \<in> set (required tool) \<and> map_of args f = Some v \<and> \<not> truthy v"
  then have supplied: "\<not> truthy (property (arguments_or_empty (Some args)) f)"
    by (simp add: arguments_or_empty_def property_present)
  have absent: "\<not> truthy (property (arguments_or_empty (Some (AList.delete f args))) f)"
    by (simp add: arguments_or_empty_def property_delete_same)
  from a supplied show "handler_of large tool (Some args) ax
          = (Inl (McpError InvalidParams (required_message tool)), [])"
    using required_guard[of f tool "Some args" large ax] by simp
  moreover from a absent have "handler_of large tool (Some (AList.delete f args)) ax
          = (Inl (McpError InvalidParams (required_message tool)), [])"
    using required_guard[of f tool "Some (AList.delete f args)" large ax] by simp
  ultimately show "handler_of large tool (Some args) ax = handler_of large tool (Some (AList.delete f args)) ax"
    by simp
  from a show "sublist f (required_message tool)" by (simp add: required_named)
next
  assume "map_of args ''per_page'' = Some v \<and> \<not> truthy v"
  then have falsy: "\<not> truthy (property args ''per_page'')"
    by (simp add: property_present)
  then show "listProjects large (Some args) ax = listProjects large (Some (AList.delete ''per_page'' args)) ax"
    by (rule listProjects_delete_per_page)
  from falsy show "snd (listProjects large (Some args) ax)
          = [AxiosGet ''/projects''
               [(''search'', property args ''search''),
                (''owned'', if property args ''owned'' = JBool True then JBool True else JUndefined),
                (''membership'',
                 if property args ''membership'' = JBool True then JBool True else JUndefined),
                (''per_page'', JNum 20)]]"
    by (rule listProjects_per_page_default)
qed

text \<open>
  \<^verbatim>\<open>create_merge_request_discussion_simple\<close> with \<^verbatim>\<open>line_number\<close> 0 and
  \<^verbatim>\<open>list_projects\<close> with \<^verbatim>\<open>per_page\<close> 0.
\<close>

theorem falsy_argument_as_absent_witness:
  "''line_number'' \<in> set (required CreateMergeRequestDiscussionSimple)
   \<and> map_of [(''project_id'', JNum 42), (''merge_request_iid'', JNum 7), (''body'', JStr ''note''),
              (''file_path'', JStr ''a.ts''), (''line_number'', JNum 0), (''line_type'', JStr ''new'')]
        ''line_number'' = Some (JNum 0)
   \<and> \<not> truthy (JNum 0)
   \<and> createMergeRequestDiscussionSimple number_text
        (Some [(''project_id'', JNum 42), (''merge_request_iid'', JNum 7), (''body'', JStr ''note''),
               (''file_path'', JStr ''a.ts''), (''line_number'', JNum 0), (''line_type'', JStr ''new'')])
        (\<lambda>rq. Inr JNull)
       = (Inl (McpError InvalidParams
            ''project_id, merge_request_iid, body, file_path, line_number, and line_type are required''),
          [])
   \<and> sublist ''line_number''
        ''project_id, merge_request_iid, body, file_path, line_number, and line_type are required''
   \<and> map_of [(''per_page'', JNum 0)] ''per_page'' = Some (JNum 0)
   \<and> snd (listProjects number_text (Some [(''per_page'', JNum 0)]) (\<lambda>rq. Inr JNull))
       = [AxiosGet ''/projects''
            [(''search'', JUndefined), (''owned'', JUndefined), (''membership'', JUndefined),
             (''per_page'', JNum 20)]]"
proof -
  let ?args = "[(''project_id'', JNum 42), (''merge_request_iid'', JNum 7), (''body'', JStr ''note''),
          (''file_path'', JStr ''a.ts''), (''line_number'', JNum 0), (''line_type'', JStr ''new'')]"
  have supplied: "''line_number'' \<in> set (required CreateMergeRequestDiscussionSimple)
     \<and> map_of ?args ''line_number'' = Some (JNum 0) \<and> \<not> truthy (JNum 0)"
    by simp
  have paged: "map_of [(''per_page'', JNum 0)] ''per_page'' = Some (JNum 0) \<and> \<not> truthy (JNum 0)"
    by simp
  from falsy_argument_as_absent
    [of "''line_number''" CreateMergeRequestDiscussionSimple ?args "JNum 0" number_text
        "\<lambda>rq. Inr JNull"]
    supplied
  have refused: "handler_of number_text CreateMergeRequestDiscussionSimple (Some ?args) (\<lambda>rq. Inr JNull)
       = (Inl (McpError InvalidParams (required_message CreateMergeRequestDiscussionSimple)), [])
     \<and> sublist ''line_number'' (required_message CreateMergeRequestDiscussionSimple)"
    by blast
  from falsy_argument_as_absent
    [of "''line_number''" CreateMergeRequestDiscussionSimple "[(''per_page'', JNum 0)]" "JNum 0"
        number_text "\<lambda>rq. Inr JNull"]
    paged
  have "snd (listProjects number_text (Some [(''per_page'', JNum 0)]) (\<lambda>rq. Inr JNull))
          = [AxiosGet ''/projects''
               [(''search'', property [(''per_page'', JNum 0)] ''search''),
                (''owned'', if property [(''per_page'', JNum 0)] ''owned'' = JBool True
                            then JBool True else JUndefined),
                (''membership'', if property [(''per_page'', JNum 0)] ''membership'' = JBool True
                            then JBool True else JUndefined),
                (''per_page'', JNum 20)]]"
    by blast
  then have defaulted: "snd (listProjects number_text (Some [(''per_page'', JNum 0)]) (\<lambda>rq. Inr JNull))
       = [AxiosGet ''/projects''
            [(''search'', JUndefined), (''owned'', JUndefined), (''membership'', JUndefined),
             (''per_page'', JNum 20)]]"
    by (simp add: property_def)
  from supplied paged refused defaulted show ?thesis by simp
qed

subsection \<open>The default ref of \<^verbatim>\<open>get_repository_file\<close>\<close>






section \<open>Properties of the response formatter\<close>

subsection \<open>Digits and numbers\<close>

lemma of_char_digit: "n < 10 \<Longrightarrow> of_char (digit n) = (48 + n :: nat)"
  by (auto simp: digit_def less_Suc_eq eval_nat_numeral)

lemma hex_value_digit: "n < 16 \<Longrightarrow> hex_value (digit n) = Some n"
  by (auto simp: digit_def hex_value_def less_Suc_eq eval_nat_numeral)

lemma digit_zero: "n < 10 \<Longrightarrow> digit n = CHR ''0'' \<Longrightarrow> n = 0"
  by (auto simp: digit_def less_Suc_eq eval_nat_numeral)

lemma is_digit_digit: "n < 10 \<Longrightarrow> is_digit (digit n)"
  by (simp add: is_digit_def of_char_digit)

lemma decimal_small: "n < 10 \<Longrightarrow> decimal n = [digit n]"
  by (subst decimal.simps) simp

lemma decimal_large: "\<not> n < 10 \<Longrightarrow> decimal n = decimal (n div 10) @ [digit (n mod 10)]"
  by (subst decimal.simps) simp

declare decimal.simps [simp del]

lemma decimal_digits: "c \<in> set (decimal k) \<Longrightarrow> is_digit c"
proof (induction k arbitrary: c rule: decimal.induct)
  case (1 n)
  show ?case
  proof (cases "n < 10")
    case True
    with "1.prems" show ?thesis by (simp add: decimal_small is_digit_digit)
  next
    case False
    with "1.prems" have "c \<in> set (decimal (n div 10)) \<or> c = digit (n mod 10)"
      by (auto simp: decimal_large)
    with False "1.IH" show ?thesis by (auto simp: is_digit_digit)
  qed
qed

lemma decimal_nonempty: "decimal k \<noteq> []"
  by (cases "k < 10") (simp_all add: decimal_small decimal_large)

lemma digits_value_snoc: "digits_value (ds @ [c]) = 10 * digits_value ds + (of_char c - 48)"
  by (simp add: digits_value_def)

lemma digits_value_decimal: "digits_value (decimal k) = k"
proof (induction k rule: decimal.induct)
  case (1 n)
  show ?case
  proof (cases "n < 10")
    case True
    then show ?thesis by (simp add: decimal_small digits_value_def of_char_digit)
  next
    case False
    with "1.IH" show ?thesis
      by (simp add: decimal_large digits_value_snoc of_char_digit)
  qed
qed

lemma hd_decimal: "0 < k \<Longrightarrow> hd (decimal k) \<noteq> CHR ''0''"
proof (induction k rule: decimal.induct)
  case (1 n)
  show ?case
  proof (cases "n < 10")
    case True
    with "1.prems" digit_zero[of n] show ?thesis
      by (auto simp: decimal_small)
  next
    case False
    moreover from False have "0 < n div 10" by simp
    ultimately show ?thesis
      using "1.IH" decimal_nonempty[of "n div 10"] by (simp add: decimal_large)
  qed
qed

lemma length_decimal: "1 < length (decimal k) \<Longrightarrow> 0 < k"
  by (cases "k = 0") (simp_all add: decimal_small)

lemma delimited_not_digit: "delimited rest \<Longrightarrow> rest = [] \<or> \<not> is_digit (hd rest)"
  by (auto simp: delimited_def is_digit_def)

lemma takeWhile_decimal:
  assumes "delimited rest"
  shows "takeWhile is_digit (decimal k @ rest) = decimal k"
proof (cases rest)
  case Nil
  then show ?thesis by (simp add: decimal_digits)
next
  case (Cons c cs)
  with delimited_not_digit[OF assms] have "\<not> is_digit c" by simp
  with Cons show ?thesis by (simp add: takeWhile_append2 decimal_digits)
qed

lemma dropWhile_decimal:
  assumes "delimited rest"
  shows "dropWhile is_digit (decimal k @ rest) = rest"
proof (cases rest)
  case Nil
  then show ?thesis by (simp add: decimal_digits)
next
  case (Cons c cs)
  with delimited_not_digit[OF assms] have "\<not> is_digit c" by simp
  with Cons show ?thesis by (simp add: dropWhile_append2 decimal_digits)
qed

lemma hd_decimal_digit: "is_digit (hd (decimal k))"
proof -
  from decimal_nonempty[of k] have "hd (decimal k) \<in> set (decimal k)" by simp
  then show ?thesis by (rule decimal_digits)
qed

lemma parse_number_unsigned:
  assumes "delimited rest"
  shows "parse_number (decimal k @ rest) = Some (JNum (int k), rest)"
proof -
  have dot: "rest = [] \<or> hd rest \<notin> {CHR ''.'', CHR ''e'', CHR ''E''}"
    using assms by (auto simp: delimited_def)
  have zero: "\<not> (1 < length (decimal k) \<and> hd (decimal k) = CHR ''0'')"
    using hd_decimal[of k] length_decimal[of k] by blast
  have "hd (decimal k) \<noteq> CHR ''-''"
    using hd_decimal_digit[of k] by (auto simp: is_digit_def)
  then have sign: "\<not> (decimal k @ rest \<noteq> [] \<and> hd (decimal k @ rest) = CHR ''-'')"
    using decimal_nonempty[of k] by simp
  show ?thesis
    unfolding parse_number_def Let_def
    using sign zero dot decimal_nonempty[of k]
    by (simp add: takeWhile_decimal[OF assms] dropWhile_decimal[OF assms] digits_value_decimal)
qed

lemma parse_number_negative:
  assumes "delimited rest"
  shows "parse_number (CHR ''-'' # decimal k @ rest) = Some (JNum (- int k), rest)"
proof -
  have dot: "rest = [] \<or> hd rest \<notin> {CHR ''.'', CHR ''e'', CHR ''E''}"
    using assms by (auto simp: delimited_def)
  have zero: "\<not> (1 < length (decimal k) \<and> hd (decimal k) = CHR ''0'')"
    using hd_decimal[of k] length_decimal[of k] by blast
  show ?thesis
    unfolding parse_number_def Let_def
    using zero dot decimal_nonempty[of k]
    by (simp add: takeWhile_decimal[OF assms] dropWhile_decimal[OF assms] digits_value_decimal)
qed

lemma parse_number_text:
  assumes "delimited rest"
  shows "parse_number (number_text n @ rest) = Some (JNum n, rest)"
proof (cases "n < 0")
  case False
  then show ?thesis
    using parse_number_unsigned[OF assms, of "nat n"] by (simp add: number_text_def)
next
  case True
  then show ?thesis
    using parse_number_negative[OF assms, of "nat (- n)"] by (simp add: number_text_def)
qed

subsection \<open>Strings and objects\<close>

lemma unicode_escape_control:
  assumes "(of_char c :: nat) < 32"
  shows "unicode_escape [CHR ''0'', CHR ''0'', digit (of_char c div 16), digit (of_char c mod 16)]
           = Some [c]"
proof -
  let ?k = "of_char c :: nat"
  have hi: "hex_value (digit (?k div 16)) = Some (?k div 16)"
    using assms by (intro hex_value_digit) simp
  have lo: "hex_value (digit (?k mod 16)) = Some (?k mod 16)"
    by (intro hex_value_digit) simp
  have zero: "hex_value CHR ''0'' = Some 0"
    by (simp add: hex_value_def)
  have "?k div 16 * 16 + ?k mod 16 = ?k" by simp
  then have "utf8 (((0 * 16 + 0) * 16 + ?k div 16) * 16 + ?k mod 16) = Some [c]"
    using assms by (simp add: utf8_def)
  then show ?thesis
    by (simp add: unicode_escape_def hi lo zero)
qed

lemma parse_escape:
  "parse_string_body (escape c @ tail) = followed_by [c] (parse_string_body tail)"
proof -
  consider (quote) "c = CHR 0x22" | (backslash) "c = CHR 0x5C" | (b) "c = CHR 0x08"
    | (f) "c = CHR 0x0C" | (n) "c = CHR 0x0A" | (r) "c = CHR 0x0D" | (t) "c = CHR 0x09"
    | (control) "c \<notin> {CHR 0x22, CHR 0x5C, CHR 0x08, CHR 0x0C, CHR 0x0A, CHR 0x0D, CHR 0x09}"
        "(of_char c :: nat) < 32"
    | (plain) "c \<notin> {CHR 0x22, CHR 0x5C, CHR 0x08, CHR 0x0C, CHR 0x0A, CHR 0x0D, CHR 0x09}"
        "\<not> (of_char c :: nat) < 32"
    by blast
  then show ?thesis
  proof cases
    case control
    then have "escape c = [CHR 0x5C, CHR ''u'', CHR ''0'', CHR ''0'',
        digit (of_char c div 16), digit (of_char c mod 16)]"
      by (simp add: escape_def)
    then show ?thesis
      using unicode_escape_control[OF control(2)] by simp
  next
    case plain
    then have "escape c = [c]" by (simp add: escape_def)
    with plain show ?thesis by simp
  qed (simp_all add: escape_def unescape_def)
qed

lemma parse_string_body_escaped:
  "parse_string_body (concat (map escape s) @ CHR 0x22 # rest) = Some (s, rest)"
proof (induction s)
  case Nil
  then show ?case by simp
next
  case (Cons c s)
  have "parse_string_body (concat (map escape (c # s)) @ CHR 0x22 # rest)
          = parse_string_body (escape c @ (concat (map escape s) @ CHR 0x22 # rest))"
    by simp
  also have "\<dots> = followed_by [c] (parse_string_body (concat (map escape s) @ CHR 0x22 # rest))"
    by (rule parse_escape)
  finally show ?case using Cons.IH by (simp add: followed_by_def)
qed

lemma assign_all_distinct_aux:
  "distinct (map fst kvs) \<Longrightarrow> fst ` set object \<inter> fst ` set kvs = {}
     \<Longrightarrow> foldl (\<lambda>object (k, v). AList.update k v object) object kvs = object @ kvs"
proof (induction kvs arbitrary: object)
  case Nil
  then show ?case by simp
next
  case (Cons p kvs)
  obtain k v where p: "p = (k, v)" by (cases p)
  from Cons.prems p have fresh: "k \<notin> fst ` set object" by auto
  have upd: "AList.update k v object = object @ [(k, v)]"
    using fresh by (induction object) auto
  from Cons.prems p have "fst ` set (object @ [(k, v)]) \<inter> fst ` set kvs = {}"
    by auto
  moreover from Cons.prems have "distinct (map fst kvs)" by simp
  ultimately have "foldl (\<lambda>object (k, v). AList.update k v object) (object @ [(k, v)]) kvs
      = (object @ [(k, v)]) @ kvs"
    by (rule Cons.IH[rotated])
  with p upd show ?case by simp
qed

lemma assign_all_distinct: "distinct (map fst kvs) \<Longrightarrow> assign_all kvs = kvs"
  using assign_all_distinct_aux[of kvs "[]"] by (simp add: assign_all_def)

subsection \<open>Values\<close>

lemma skip_ws_starts_value: "starts_value s \<Longrightarrow> skip_ws s = s"
  by (cases s) (simp_all add: starts_value_def skip_ws_def)

lemma number_text_head: "number_text n = hd (number_text n) # tl (number_text n)
    \<and> (hd (number_text n) = CHR ''-'' \<or> is_digit (hd (number_text n)))"
  using hd_decimal_digit[of "nat n"] decimal_nonempty[of "nat n"]
  by (simp add: number_text_def)

lemma starts_value_JSON: "starts_value (JSON_value x @ rest)"
proof (cases x)
  case (JNum n)
  from number_text_head[of n] show ?thesis
    unfolding JNum by (cases "number_text n") (auto simp: starts_value_def is_ws_def is_digit_def)
qed (simp_all add: starts_value_def is_ws_def quote_def)

lemma length_JSON_value: "0 < length (JSON_value x)"
  using starts_value_JSON[of x "[]"] by (simp add: starts_value_def)

lemma parse_value_number:
  assumes "delimited rest"
  shows "parse_value (Suc m) (number_text n @ rest) = Some (JNum n, rest)"
proof -
  obtain c cs where shape: "number_text n = c # cs" and c: "c = CHR ''-'' \<or> is_digit c"
    using number_text_head[of n] by metis
  from c have "\<not> is_ws c" "c \<noteq> CHR ''[''" "c \<noteq> CHR ''{''" "c \<noteq> CHR 0x22"
    "c \<noteq> CHR ''n''" "c \<noteq> CHR ''t''" "c \<noteq> CHR ''f''"
    by (auto simp: is_ws_def is_digit_def)
  then have "parse_value (Suc m) (c # cs @ rest) = parse_number (c # cs @ rest)"
    by (auto simp: skip_ws_def)
  with parse_number_text[OF assms, of n] shape show ?thesis by simp
qed

lemma parse_one_element:
  assumes "parse_value m (JSON_value x @ CHR '']'' # rest) = Some (x, CHR '']'' # rest)"
  shows "parse_elements (Suc m) (JSON_value x @ CHR '']'' # rest) = Some ([x], rest)"
  using assms by (simp add: skip_ws_def is_ws_def)

lemma parse_more_elements:
  assumes "parse_value m (JSON_value x @ CHR '','' # following) = Some (x, CHR '','' # following)"
    and "parse_elements m following = Some (xs, rest)"
  shows "parse_elements (Suc m) (JSON_value x @ CHR '','' # following) = Some (x # xs, rest)"
  using assms by (simp add: skip_ws_def is_ws_def)

lemma parse_member_key:
  "parse_members (Suc m) (quote k @ CHR '':'' # following) =
     (case parse_value m following of
        None \<Rightarrow> None
      | Some (v, r3) \<Rightarrow>
          (case skip_ws r3 of
             [] \<Rightarrow> None
           | c # r4 \<Rightarrow>
               if c = CHR '','' then
                 (case parse_members m r4 of
                    None \<Rightarrow> None
                  | Some (kvs, rest) \<Rightarrow> Some ((k, v) # kvs, rest))
               else if c = CHR ''}'' then Some ([(k, v)], r4)
               else None))"
  by (simp add: quote_def skip_ws_def is_ws_def parse_string_body_escaped)

lemma parse_one_member:
  assumes "parse_value m (JSON_value v @ CHR ''}'' # rest) = Some (v, CHR ''}'' # rest)"
  shows "parse_members (Suc m) ((quote k @ CHR '':'' # JSON_value v) @ CHR ''}'' # rest)
           = Some ([(k, v)], rest)"
  using assms parse_member_key[of m k "JSON_value v @ CHR ''}'' # rest"]
  by (simp add: skip_ws_def is_ws_def)

lemma parse_more_members:
  assumes "parse_value m (JSON_value v @ CHR '','' # following) = Some (v, CHR '','' # following)"
    and "parse_members m following = Some (kvs, rest)"
  shows "parse_members (Suc m) ((quote k @ CHR '':'' # JSON_value v) @ CHR '','' # following)
           = Some ((k, v) # kvs, rest)"
  using assms parse_member_key[of m k "JSON_value v @ CHR '','' # following"]
  by (simp add: skip_ws_def is_ws_def)

lemma parse_array:
  assumes "starts_value r" and "parse_elements m r = Some (xs, rest)"
  shows "parse_value (Suc m) (CHR ''['' # r) = Some (JArr xs, rest)"
proof -
  have "skip_ws (CHR ''['' # r) = CHR ''['' # r" by (simp add: skip_ws_def is_ws_def)
  moreover have "\<not> (skip_ws r \<noteq> [] \<and> hd (skip_ws r) = CHR '']'')"
    using assms(1) skip_ws_starts_value[OF assms(1)] by (simp add: starts_value_def)
  ultimately show ?thesis using assms(2) by auto
qed

lemma parse_object:
  assumes "starts_value r" and "parse_members m r = Some (kvs, rest)"
  shows "parse_value (Suc m) (CHR ''{'' # r) = Some (JObj (assign_all kvs), rest)"
proof -
  have "skip_ws (CHR ''{'' # r) = CHR ''{'' # r" by (simp add: skip_ws_def is_ws_def)
  moreover have "\<not> (skip_ws r \<noteq> [] \<and> hd (skip_ws r) = CHR ''}'')"
    using assms(1) skip_ws_starts_value[OF assms(1)] by (simp add: starts_value_def)
  ultimately show ?thesis using assms(2) by auto
qed

lemma parse_empty_array: "parse_value (Suc m) (CHR ''['' # CHR '']'' # rest) = Some (JArr [], rest)"
  by (simp add: skip_ws_def is_ws_def)

lemma parse_empty_object: "parse_value (Suc m) (CHR ''{'' # CHR ''}'' # rest) = Some (JObj [], rest)"
  by (simp add: skip_ws_def is_ws_def)

lemma parse_string:
  "parse_value (Suc m) (quote s @ rest) = Some (JStr s, rest)"
  by (simp add: quote_def skip_ws_def is_ws_def parse_string_body_escaped)

lemma parse_literals:
  "parse_value (Suc m) (''null'' @ rest) = Some (JNull, rest)"
  "parse_value (Suc m) (''true'' @ rest) = Some (JBool True, rest)"
  "parse_value (Suc m) (''false'' @ rest) = Some (JBool False, rest)"
  by (simp_all add: skip_ws_def is_ws_def)

lemma starts_value_elements:
  "xs \<noteq> [] \<Longrightarrow> starts_value (commas (JSON_elements xs) @ rest)"
proof (cases xs)
  case Nil
  assume "xs \<noteq> []"
  with Nil show ?thesis by simp
next
  case (Cons y ys)
  show ?thesis
  proof (cases ys)
    case Nil
    with Cons show ?thesis by (simp add: starts_value_JSON)
  next
    case (Cons z zs)
    with \<open>xs = y # ys\<close> starts_value_JSON[of y "CHR '','' # commas (JSON_elements ys) @ rest"]
    show ?thesis by simp
  qed
qed

lemma JSON_members_serializable:
  "serializable_members kvs \<Longrightarrow>
   JSON_members kvs = map (\<lambda>(k, v). quote k @ CHR '':'' # JSON_value v) kvs"
  by (induction kvs) auto

lemma starts_value_members:
  assumes "kvs \<noteq> []" and "serializable_members kvs"
  shows "starts_value (commas (JSON_members kvs) @ rest)"
proof -
  from assms(1) obtain k v kvs' where kvs: "kvs = (k, v) # kvs'" by (cases kvs) auto
  with assms(2) have "v \<noteq> JUndefined" by auto
  with kvs show ?thesis
    by (cases "JSON_members kvs'") (simp_all add: starts_value_def quote_def is_ws_def)
qed

lemma length_commas_Cons: "length s \<le> length (commas (s # ss))"
  by (cases ss) simp_all

lemma length_commas_tail: "ss \<noteq> [] \<Longrightarrow> length (commas ss) < length (commas (s # ss))"
  by (cases ss) simp_all

text \<open>
  The parser reads back what the serializer wrote, whatever follows it: by induction
  along the serializer, for values, for the elements of a non-empty array up to the
  closing bracket, and for the members of a non-empty object up to the closing brace.
\<close>

lemma parse_print:
  "serializable x \<longrightarrow>
     (\<forall>n rest. length (JSON_value x) \<le> n \<longrightarrow> delimited rest \<longrightarrow>
        parse_value n (JSON_value x @ rest) = Some (x, rest))"
  "serializable_elements xs \<longrightarrow> xs \<noteq> [] \<longrightarrow>
     (\<forall>n rest. length (commas (JSON_elements xs)) < n \<longrightarrow>
        parse_elements n (commas (JSON_elements xs) @ CHR '']'' # rest) = Some (xs, rest))"
  "serializable_members kvs \<longrightarrow> kvs \<noteq> [] \<longrightarrow>
     (\<forall>n rest. length (commas (JSON_members kvs)) < n \<longrightarrow>
        parse_members n (commas (JSON_members kvs) @ CHR ''}'' # rest) = Some (kvs, rest))"
proof (induction x and xs and kvs rule: JSON_value_JSON_elements_JSON_members.induct)
  case 1
  show ?case by simp
next
  case 2
  show ?case
  proof (intro impI allI)
    fix n rest assume "length (JSON_value JNull) \<le> n"
    then obtain m where "n = Suc m" by (cases n) auto
    then show "parse_value n (JSON_value JNull @ rest) = Some (JNull, rest)"
      using parse_literals(1)[of m rest] by simp
  qed
next
  case (3 b)
  show ?case
  proof (intro impI allI)
    fix n rest assume "length (JSON_value (JBool b)) \<le> n"
    then obtain m where "n = Suc m" by (cases n) (auto split: if_splits)
    then show "parse_value n (JSON_value (JBool b) @ rest) = Some (JBool b, rest)"
      using parse_literals(2)[of m rest] parse_literals(3)[of m rest] by (cases b) simp_all
  qed
next
  case (4 i)
  show ?case
  proof (intro impI allI)
    fix n rest assume "length (JSON_value (JNum i)) \<le> n" and "delimited rest"
    with length_JSON_value[of "JNum i"] obtain m where "n = Suc m" by (cases n) auto
    with \<open>delimited rest\<close> show "parse_value n (JSON_value (JNum i) @ rest) = Some (JNum i, rest)"
      using parse_value_number[of rest m i] by simp
  qed
next
  case (5 s)
  show ?case
  proof (intro impI allI)
    fix n rest assume "length (JSON_value (JStr s)) \<le> n"
    with length_JSON_value[of "JStr s"] obtain m where "n = Suc m" by (cases n) auto
    then show "parse_value n (JSON_value (JStr s) @ rest) = Some (JStr s, rest)"
      using parse_string[of m s rest] by simp
  qed
next
  case (6 xs)
  show ?case
  proof (intro impI allI)
    fix n rest
    assume ser: "serializable (JArr xs)" and len: "length (JSON_value (JArr xs)) \<le> n"
    from len obtain m where n: "n = Suc m" and m: "length (commas (JSON_elements xs)) < m"
      by (cases n) auto
    show "parse_value n (JSON_value (JArr xs) @ rest) = Some (JArr xs, rest)"
    proof (cases "xs = []")
      case True
      with n show ?thesis using parse_empty_array[of m rest] by simp
    next
      case False
      with ser m "6.IH"
      have "parse_elements m (commas (JSON_elements xs) @ CHR '']'' # rest) = Some (xs, rest)"
        by simp
      with starts_value_elements[OF False, of "CHR '']'' # rest"]
      have "parse_value (Suc m) (CHR ''['' # commas (JSON_elements xs) @ CHR '']'' # rest)
              = Some (JArr xs, rest)"
        by (rule parse_array)
      with n show ?thesis by simp
    qed
  qed
next
  case (7 kvs)
  show ?case
  proof (intro impI allI)
    fix n rest
    assume ser: "serializable (JObj kvs)" and len: "length (JSON_value (JObj kvs)) \<le> n"
    from len obtain m where n: "n = Suc m" and m: "length (commas (JSON_members kvs)) < m"
      by (cases n) auto
    from ser have members: "serializable_members kvs" and keys: "distinct (map fst kvs)"
      by simp_all
    show "parse_value n (JSON_value (JObj kvs) @ rest) = Some (JObj kvs, rest)"
    proof (cases "kvs = []")
      case True
      with n show ?thesis using parse_empty_object[of m rest] by simp
    next
      case False
      with members m "7.IH"
      have "parse_members m (commas (JSON_members kvs) @ CHR ''}'' # rest) = Some (kvs, rest)"
        by simp
      with starts_value_members[OF False members, of "CHR ''}'' # rest"]
      have "parse_value (Suc m) (CHR ''{'' # commas (JSON_members kvs) @ CHR ''}'' # rest)
              = Some (JObj (assign_all kvs), rest)"
        by (rule parse_object)
      with n keys show ?thesis by (simp add: assign_all_distinct)
    qed
  qed
next
  case 8
  show ?case by simp
next
  case (9 x xs)
  show ?case
  proof (intro impI allI)
    fix n rest
    assume ser: "serializable_elements (x # xs)"
      and len: "length (commas (JSON_elements (x # xs))) < n"
    from len obtain m where n: "n = Suc m"
      and m: "length (commas (JSON_elements (x # xs))) \<le> m"
      by (cases n) auto
    from m length_commas_Cons[of "JSON_value x" "JSON_elements xs"]
    have mx: "length (JSON_value x) \<le> m" by simp
    from ser have sx: "serializable x" and sxs: "serializable_elements xs" by simp_all
    show "parse_elements n (commas (JSON_elements (x # xs)) @ CHR '']'' # rest)
            = Some (x # xs, rest)"
    proof (cases xs)
      case Nil
      from sx mx "9.IH"(1)
      have "parse_value m (JSON_value x @ CHR '']'' # rest) = Some (x, CHR '']'' # rest)"
        by (simp add: delimited_def)
      then have "parse_elements (Suc m) (JSON_value x @ CHR '']'' # rest) = Some ([x], rest)"
        by (rule parse_one_element)
      with n Nil show ?thesis by simp
    next
      case (Cons y ys)
      let ?following = "commas (JSON_elements xs) @ CHR '']'' # rest"
      from sx mx "9.IH"(1)
      have first: "parse_value m (JSON_value x @ CHR '','' # ?following)
                     = Some (x, CHR '','' # ?following)"
        by (simp add: delimited_def)
      from Cons have "JSON_elements xs \<noteq> []" by simp
      from length_commas_tail[OF this, of "JSON_value x"] m
      have "length (commas (JSON_elements xs)) < m" by simp
      with sxs Cons "9.IH"(2) have others: "parse_elements m ?following = Some (xs, rest)"
        by simp
      from first others
      have "parse_elements (Suc m) (JSON_value x @ CHR '','' # ?following) = Some (x # xs, rest)"
        by (rule parse_more_elements)
      with n Cons show ?thesis by simp
    qed
  qed
next
  case 10
  show ?case by simp
next
  case (11 k v kvs)
  show ?case
  proof (intro impI allI)
    fix n rest
    assume ser: "serializable_members ((k, v) # kvs)"
      and len: "length (commas (JSON_members ((k, v) # kvs))) < n"
    from ser have sv: "serializable v" and skvs: "serializable_members kvs" by simp_all
    from sv have defined: "v \<noteq> JUndefined" by auto
    let ?member = "quote k @ CHR '':'' # JSON_value v"
    from defined have members: "JSON_members ((k, v) # kvs) = ?member # JSON_members kvs"
      by simp
    from len obtain m where n: "n = Suc m"
      and m: "length (commas (?member # JSON_members kvs)) \<le> m"
      unfolding members by (cases n) auto
    from m length_commas_Cons[of ?member "JSON_members kvs"]
    have mv: "length (JSON_value v) \<le> m" by simp
    show "parse_members n (commas (JSON_members ((k, v) # kvs)) @ CHR ''}'' # rest)
            = Some ((k, v) # kvs, rest)"
    proof (cases kvs)
      case Nil
      from sv mv defined "11.IH"(2)
      have "parse_value m (JSON_value v @ CHR ''}'' # rest) = Some (v, CHR ''}'' # rest)"
        by (simp add: delimited_def)
      then have "parse_members (Suc m) (?member @ CHR ''}'' # rest) = Some ([(k, v)], rest)"
        by (rule parse_one_member)
      with n Nil defined show ?thesis by simp
    next
      case (Cons p ps)
      let ?following = "commas (JSON_members kvs) @ CHR ''}'' # rest"
      from sv mv defined "11.IH"(2)
      have first: "parse_value m (JSON_value v @ CHR '','' # ?following)
                     = Some (v, CHR '','' # ?following)"
        by (simp add: delimited_def)
      from Cons skvs have nonempty: "JSON_members kvs \<noteq> []"
        by (simp add: JSON_members_serializable)
      from length_commas_tail[OF this, of ?member] m
      have "length (commas (JSON_members kvs)) < m" by simp
      with skvs Cons defined "11.IH"(3) have others: "parse_members m ?following = Some (kvs, rest)"
        by simp
      from first others
      have "parse_members (Suc m) (?member @ CHR '','' # ?following) = Some ((k, v) # kvs, rest)"
        by (rule parse_more_members)
      moreover from nonempty
      have "commas (?member # JSON_members kvs) = ?member @ CHR '','' # commas (JSON_members kvs)"
        by (cases "JSON_members kvs") simp_all
      ultimately show ?thesis using n members by simp
    qed
  qed
qed

lemma JSON_parse_JSON_value: "serializable x \<Longrightarrow> JSON_parse (JSON_value x) = Some x"
proof -
  assume "serializable x"
  moreover have "delimited []" by (simp add: delimited_def)
  ultimately
  have "parse_value (Suc (length (JSON_value x))) (JSON_value x @ []) = Some (x, [])"
    using parse_print(1)[rule_format, of x "Suc (length (JSON_value x))" "[]"]
    by (simp del: parse_value.simps)
  then show ?thesis by (simp add: JSON_parse_def skip_ws_def del: parse_value.simps)
qed

subsection \<open>The round trip\<close>

text \<open>
  C8. For every JSON-serializable value \<open>x\<close>, \<open>formatResponse x\<close> is the envelope
  with a single text block that holds the serialized payload, and reading the text of
  that block back as JSON gives \<open>x\<close> itself.
\<close>

theorem formatResponse_round_trip:
  assumes "serializable x"
  shows "formatResponse x = Envelope [TextBlock (Some (JSON_value x))]
       \<and> JSON_parse (JSON_value x) = Some x
       \<and> extract_payload (formatResponse x) = Some x"
proof -
  from assms have "x \<noteq> JUndefined" by auto
  then have "formatResponse x = Envelope [TextBlock (Some (JSON_value x))]"
    by (simp add: formatResponse_def JSON_stringify_def)
  with JSON_parse_JSON_value[OF assms] show ?thesis
    by (simp add: extract_payload_def)
qed

text \<open>An object with a number, a string, an array and an empty object.\<close>

theorem formatResponse_round_trip_witness:
  \<open>serializable
     (JObj [(''id'', JNum 42), (''path'', JStr ''group/repo''),
            (''tags'', JArr [JStr ''v1'', JNull, JBool False, JNum (- 7)]), (''owner'', JObj [])])
   \<and> formatResponse
       (JObj [(''id'', JNum 42), (''path'', JStr ''group/repo''),
              (''tags'', JArr [JStr ''v1'', JNull, JBool False, JNum (- 7)]), (''owner'', JObj [])])
     = Envelope [TextBlock (Some
         ''{"id":42,"path":"group/repo","tags":["v1",null,false,-7],"owner":{}}'')]
   \<and> extract_payload (Envelope [TextBlock (Some
         ''{"id":42,"path":"group/repo","tags":["v1",null,false,-7],"owner":{}}'')])
     = Some (JObj [(''id'', JNum 42), (''path'', JStr ''group/repo''),
                   (''tags'', JArr [JStr ''v1'', JNull, JBool False, JNum (- 7)]),
                   (''owner'', JObj [])])\<close>
proof -
  let ?x = "JObj [(''id'', JNum 42), (''path'', JStr ''group/repo''),
            (''tags'', JArr [JStr ''v1'', JNull, JBool False, JNum (- 7)]), (''owner'', JObj [])]"
  have ser: "serializable ?x" by simp
  have rendered: \<open>JSON_value ?x
      = ''{"id":42,"path":"group/repo","tags":["v1",null,false,-7],"owner":{}}''\<close>
    by (simp add: quote_def escape_def number_text_def decimal.simps digit_def)
  note round_trip = formatResponse_round_trip[OF ser]
  from round_trip have formatted: \<open>formatResponse ?x = Envelope [TextBlock (Some
         ''{"id":42,"path":"group/repo","tags":["v1",null,false,-7],"owner":{}}'')]\<close>
    by (simp only: rendered)
  from round_trip have "extract_payload (formatResponse ?x) = Some ?x"
    by (elim conjE)
  then have extracted: \<open>extract_payload (Envelope [TextBlock (Some
         ''{"id":42,"path":"group/repo","tags":["v1",null,false,-7],"owner":{}}'')]) = Some ?x\<close>
    by (simp only: formatted)
  show ?thesis by (intro conjI ser formatted extracted)
qed

end

